theory Spec2Isabelle
  imports Complex_Main "HOL-Library.Log_Nat"
begin

section \<open>Solana payment gateway: quoting, transfer construction, payment records\<close>

text \<open>
  The development embeds three source files of the repository:
  \<^item> \<open>utils/solana.ts\<close>: the token registry \<open>TOKENS\<close>, \<open>createPaymentTransaction\<close> and
    \<open>mockSendTransaction\<close>;
  \<^item> \<open>utils/jupiter.ts\<close>: \<open>getQuote\<close>, \<open>executeSwap\<close> and \<open>getMockExchangeRate\<close>;
  \<^item> \<open>App.tsx\<close> and \<open>components/PaymentForm.tsx\<close>: the quote effect \<open>fetchQuote\<close>,
    \<open>handleSubmit\<close> and \<open>handlePaymentComplete\<close>.

  Conventions of the embedding.
  \<^item> A JavaScript \<open>number\<close> is a \<open>real\<close> that is a double, and every arithmetic
    operation of the code on amounts is the exact operation followed by \<open>double\<close>, the
    rounding to the nearest double (ties to even). \<open>Math.floor\<close> is \<open>floor\<close>. Overflow,
    underflow and \<open>NaN\<close> are not modelled: the statements about arbitrary amounts are
    restricted to a range in which they do not occur.
  \<^item> A \<open>PublicKey\<close> object is its base-58 string.
  \<^item> Everything the code awaits from outside (the RPC connection, the key and address
    derivations of the libraries, the clock, \<open>Math.random\<close>) is a field of the record
    \<open>env\<close>; a call that rejects or throws is the value \<open>None\<close> or a flag there, and every
    \<open>throw\<close> of the source is an \<open>Inl\<close> of the model.
  \<^item> A React state variable is a field of a state record; a setter call is a record update.
    A handler closes over the state of the render that created it, so that state is an
    argument of the handler of its own.
\<close>

subsection \<open>JavaScript numbers\<close>

text \<open>
  \<open>round_even y\<close> is the integer nearest to \<open>y\<close>, the even one of the two when \<open>y\<close> lies
  half-way. \<open>exponent x\<close> is the integer \<open>e\<close> with \<open>2^e \<le> |x| < 2^(e+1)\<close>, for \<open>x\<close> other
  than 0. \<open>double x\<close> keeps 53 significant bits of \<open>x\<close>: it is the IEEE 754 binary64
  number nearest to \<open>x\<close>, as long as \<open>|x|\<close> is in the range of the normal doubles
  (\<open>2^-1022 \<le> |x| < 2^1024\<close>).
\<close>

definition round_even :: "real \<Rightarrow> int" where
  "round_even y =
     (let f = \<lfloor>y\<rfloor>; r = y - of_int f
      in if r < 1 / 2 then f else if 1 / 2 < r then f + 1 else if even f then f else f + 1)"

definition exponent :: "real \<Rightarrow> int" where
  "exponent x =
     (let a = \<bar>x\<bar> in if 1 \<le> a then bitlen \<lfloor>a\<rfloor> - 1 else - bitlen (\<lceil>1 / a\<rceil> - 1))"

definition double :: "real \<Rightarrow> real" where
  "double x =
     (if x = 0 then 0
      else of_int (round_even (x / 2 powi (exponent x - 52))) * 2 powi (exponent x - 52))"

text \<open>
  The amounts the general statements are about: non-negative doubles that are 0 or lie
  between \<open>10^-12\<close> and \<open>10^9\<close>. For them no product below leaves the range of the normal
  doubles, and every number of base units is below \<open>2^64\<close>.
\<close>

definition js_amount :: "real \<Rightarrow> bool" where
  "js_amount a \<longleftrightarrow> double a = a \<and> (a = 0 \<or> (1 / 10 ^ 12 \<le> a \<and> a \<le> 10 ^ 9))"

subsection \<open>types.ts\<close>

datatype payment_status = Pending | Processing | Completed | Failed

record Merchant =
  merchant_id :: string
  merchant_name :: string
  walletAddress :: string
  merchant_preferredToken :: string

record Payment =
  payment_id :: string
  amount :: real
  token :: string
  status :: payment_status
  timestamp :: int
  merchantId :: string
  customerWallet :: "string option"
  txSignature :: "string option"

record TokenInfo =
  symbol :: string
  name :: string
  mint :: string
  decimals :: nat
  logoURI :: "string option"

record SwapResult =
  inputAmount :: real
  outputAmount :: real
  inputToken :: string
  outputToken :: string
  swap_txSignature :: string
  swap_fee :: real

subsection \<open>utils/solana.ts: the token registry\<close>

type_synonym PublicKey = string

definition logo :: "string \<Rightarrow> string option" where
  "logo m = Some (''https://raw.githubusercontent.com/solana-labs/token-list/main/assets/mainnet/''
                   @ m @ ''/logo.png'')"

definition SOL :: TokenInfo where
  "SOL = \<lparr>symbol = ''SOL'', name = ''Solana'',
          mint = ''So11111111111111111111111111111111111111112'', decimals = 9,
          logoURI = logo ''So11111111111111111111111111111111111111112''\<rparr>"

definition USDC :: TokenInfo where
  "USDC = \<lparr>symbol = ''USDC'', name = ''USD Coin'',
           mint = ''EPjFWdd5AufqSSqeM2qN1xzybapC8G4wEGGkZwyTDt1v'', decimals = 6,
           logoURI = logo ''EPjFWdd5AufqSSqeM2qN1xzybapC8G4wEGGkZwyTDt1v''\<rparr>"

definition USDT :: TokenInfo where
  "USDT = \<lparr>symbol = ''USDT'', name = ''Tether'',
           mint = ''Es9vMFrzaCERmJfrF4H2FYD4KCoNkY11McCe8BenwNYB'', decimals = 6,
           logoURI = logo ''Es9vMFrzaCERmJfrF4H2FYD4KCoNkY11McCe8BenwNYB''\<rparr>"

definition BONK :: TokenInfo where
  "BONK = \<lparr>symbol = ''BONK'', name = ''Bonk'',
           mint = ''DezXAZ8z7PnrnRJjz3wXBoRgixCa6xjnB7YaB1pPB263'', decimals = 5,
           logoURI = logo ''DezXAZ8z7PnrnRJjz3wXBoRgixCa6xjnB7YaB1pPB263''\<rparr>"

definition JUP :: TokenInfo where
  "JUP = \<lparr>symbol = ''JUP'', name = ''Jupiter'',
          mint = ''JUPyiwrYJFskUPiHa7hkeR8VUtAeFoSYbKedZNsDvCN'', decimals = 6,
          logoURI = logo ''JUPyiwrYJFskUPiHa7hkeR8VUtAeFoSYbKedZNsDvCN''\<rparr>"

text \<open>\<open>TOKENS\<close> is an object literal; \<open>Object.values\<close> lists its values in insertion order.\<close>

definition TOKENS :: "(string \<times> TokenInfo) list" where
  "TOKENS = [(''SOL'', SOL), (''USDC'', USDC), (''USDT'', USDT), (''BONK'', BONK), (''JUP'', JUP)]"

definition Object_values :: "(string \<times> 'a) list \<Rightarrow> 'a list" where
  "Object_values obj = map snd obj"

text \<open>\<open>Object.values(TOKENS).find(t => t.mint === tokenMint)\<close>: the first match, or undefined.\<close>

definition find_by_mint :: "string \<Rightarrow> TokenInfo option" where
  "find_by_mint tokenMint = find (\<lambda>t. mint t = tokenMint) (Object_values TOKENS)"

text \<open>Constants of the libraries \<open>@solana/web3.js\<close> and \<open>@solana/spl-token\<close>.\<close>

definition LAMPORTS_PER_SOL :: real where
  "LAMPORTS_PER_SOL = 1000000000"

definition TOKEN_PROGRAM_ID :: PublicKey where
  "TOKEN_PROGRAM_ID = ''TokenkegQfeZyiNwAJbNbGKPFXCWuBvf9Ss623VQ5DA''"

subsection \<open>utils/jupiter.ts: the rate table and the quote\<close>

text \<open>
  The local constant \<open>rates\<close> of \<open>getMockExchangeRate\<close>, a record of records. The entries
  \<open>1/150.25\<close> and \<open>1/150.15\<close> are written as quotients in the source too. \<open>rates\<close> holds
  the decimal fractions that the literals denote, and \<open>getMockExchangeRate\<close> below is the
  function on these exact values; the properties of the table are stated about it. The
  numbers the code computes with are in \<open>rates_double\<close> and \<open>getMockExchangeRate_double\<close>
  further down.
\<close>

definition rates :: "(string \<times> (string \<times> real) list) list" where
  "rates =
    [(''SOL'',  [(''USDC'', 150.25), (''USDT'', 150.15), (''BONK'', 1000000)]),
     (''USDC'', [(''SOL'', 1 / 150.25), (''USDT'', 0.998), (''BONK'', 6500)]),
     (''USDT'', [(''SOL'', 1 / 150.15), (''USDC'', 1.002), (''BONK'', 6520)]),
     (''BONK'', [(''SOL'', 0.000001), (''USDC'', 0.00015), (''USDT'', 0.00015)])]"

text \<open>
  \<open>rates[a]?.[b]\<close>: undefined (\<open>None\<close>) when the row or the entry is missing. Only own keys
  are modelled. A JavaScript object also answers to the names it inherits from
  \<open>Object.prototype\<close>, listed in \<open>inherited_keys\<close>; they are not token symbols, and the
  model says nothing about the code at such a name.
\<close>

definition rate_entry :: "string \<Rightarrow> string \<Rightarrow> real option" where
  "rate_entry a b = (case map_of rates a of None \<Rightarrow> None | Some row \<Rightarrow> map_of row b)"


text \<open>
  The condition \<open>if (rates[a]?.[b])\<close> tests truthiness: undefined and the number 0 are
  both falsy. \<open>truthy_rate\<close> is the entry when the test passes.
\<close>

definition truthy_rate :: "string \<Rightarrow> string \<Rightarrow> real option" where
  "truthy_rate a b =
     (case rate_entry a b of None \<Rightarrow> None | Some r \<Rightarrow> if r = 0 then None else Some r)"

definition getMockExchangeRate :: "string \<Rightarrow> string \<Rightarrow> real" where
  "getMockExchangeRate fromSymbol toSymbol =
     (case truthy_rate fromSymbol toSymbol of
        Some r \<Rightarrow> r
      | None \<Rightarrow>
         (case truthy_rate toSymbol fromSymbol of
            Some r \<Rightarrow> 1 / r
          | None \<Rightarrow>
             (case truthy_rate fromSymbol ''USDC'' of
                None \<Rightarrow> 1
              | Some r1 \<Rightarrow>
                 (case truthy_rate ''USDC'' toSymbol of
                    None \<Rightarrow> 1
                  | Some r2 \<Rightarrow> r1 * r2))))"


text \<open>The symbols that have a row in the table.\<close>

definition table_symbols :: "string list" where
  "table_symbols = map fst rates"


text \<open>
  The table and the function as the code evaluates them: every literal is the double
  nearest to the decimal fraction written, and the quotients and the product are rounded.
\<close>

definition rates_double :: "(string \<times> (string \<times> real) list) list" where
  "rates_double =
    [(''SOL'',  [(''USDC'', double 150.25), (''USDT'', double 150.15), (''BONK'', double 1000000)]),
     (''USDC'', [(''SOL'', double (1 / double 150.25)), (''USDT'', double 0.998),
                 (''BONK'', double 6500)]),
     (''USDT'', [(''SOL'', double (1 / double 150.15)), (''USDC'', double 1.002),
                 (''BONK'', double 6520)]),
     (''BONK'', [(''SOL'', double 0.000001), (''USDC'', double 0.00015),
                 (''USDT'', double 0.00015)])]"

definition double_entry :: "string \<Rightarrow> string \<Rightarrow> real option" where
  "double_entry a b = (case map_of rates_double a of None \<Rightarrow> None | Some row \<Rightarrow> map_of row b)"

definition truthy_double :: "string \<Rightarrow> string \<Rightarrow> real option" where
  "truthy_double a b =
     (case double_entry a b of None \<Rightarrow> None | Some r \<Rightarrow> if r = 0 then None else Some r)"

definition getMockExchangeRate_double :: "string \<Rightarrow> string \<Rightarrow> real" where
  "getMockExchangeRate_double fromSymbol toSymbol =
     (case truthy_double fromSymbol toSymbol of
        Some r \<Rightarrow> r
      | None \<Rightarrow>
         (case truthy_double toSymbol fromSymbol of
            Some r \<Rightarrow> double (1 / r)
          | None \<Rightarrow>
             (case truthy_double fromSymbol ''USDC'' of
                None \<Rightarrow> 1
              | Some r1 \<Rightarrow>
                 (case truthy_double ''USDC'' toSymbol of
                    None \<Rightarrow> 1
                  | Some r2 \<Rightarrow> double (r1 * r2)))))"

datatype exn =
    RpcFailure
  | InvalidPublicKey string
  | AddressDerivationFailure
  | TokenAccountNotFound
  | ProbeFailure
  | TokenInfoNotFound string
  | EncodingFailure
  | SendFailure
  | QuoteFailure
  | SwapFailure

record platformFee =
  fee_amount :: real
  feeBps :: nat

record swapInfo =
  ammKey :: string
  label :: string
  si_inputMint :: string
  si_outputMint :: string
  si_inAmount :: real
  si_outAmount :: real
  feeAmount :: real
  feeMint :: string

text \<open>
  The quote object. The same-token quote built by the form has only the first six
  fields; the others are optional here for that reason.
\<close>

record Quote =
  inputMint :: string
  outputMint :: string
  inAmount :: real
  outAmount :: real
  platform_fee :: platformFee
  priceImpactPct :: real
  otherAmountThreshold :: "real option"
  swapMode :: "string option"
  slippageBps :: "nat option"
  routePlan :: "swapInfo list option"
  contextSlot :: "nat option"

text \<open>
  \<open>getQuote\<close>. The argument \<open>rnd\<close> is the string that \<open>Math.random().toString(36)\<close> yields
  for the route's key. The body is wrapped in \<open>try\<close>/\<open>catch\<close>, but has no statement that
  throws, so the result is always \<open>Inr\<close>. Products are evaluated from left to right, each
  one rounded; \<open>10 ** decimals\<close> is exact for up to 22 decimals.
\<close>

definition getQuote :: "string \<Rightarrow> TokenInfo \<Rightarrow> TokenInfo \<Rightarrow> real \<Rightarrow> exn + Quote" where
  "getQuote rnd inputTok outputTok amt =
     (let mockRate = getMockExchangeRate_double (symbol inputTok) (symbol outputTok);
          outputAmt = double (amt * mockRate);
          fee = double (amt * double 0.003)
      in Inr \<lparr>inputMint = mint inputTok,
              outputMint = mint outputTok,
              inAmount = double (amt * 10 ^ decimals inputTok),
              outAmount = of_int \<lfloor>double (outputAmt * 10 ^ decimals outputTok)\<rfloor>,
              platform_fee =
                \<lparr>fee_amount = of_int \<lfloor>double (fee * 10 ^ decimals inputTok)\<rfloor>, feeBps = 30\<rparr>,
              priceImpactPct = double 0.1,
              otherAmountThreshold =
                Some (of_int \<lfloor>double (double (outputAmt * double 0.995)
                                         * 10 ^ decimals outputTok)\<rfloor>),
              swapMode = Some ''ExactIn'',
              slippageBps = Some 50,
              routePlan = Some
                [\<lparr>ammKey = ''JUP'' @ rnd,
                  label = ''Jupiter Aggregator'',
                  si_inputMint = mint inputTok,
                  si_outputMint = mint outputTok,
                  si_inAmount = double (amt * 10 ^ decimals inputTok),
                  si_outAmount = of_int \<lfloor>double (outputAmt * 10 ^ decimals outputTok)\<rfloor>,
                  feeAmount = of_int \<lfloor>double (fee * 10 ^ decimals inputTok)\<rfloor>,
                  feeMint = mint inputTok\<rparr>],
              contextSlot = Some 234567890\<rparr>)"

text \<open>\<open>executeSwap\<close>; \<open>slippage\<close> is the parameter \<open>slippageBps\<close>, 50 when the caller omits it.\<close>

definition executeSwap :: "string \<Rightarrow> TokenInfo \<Rightarrow> TokenInfo \<Rightarrow> real \<Rightarrow> real \<Rightarrow> exn + SwapResult" where
  "executeSwap rnd inputTok outputTok amt slippage =
     (let mockRate = getMockExchangeRate_double (symbol inputTok) (symbol outputTok);
          outputAmt = double (double (amt * mockRate) * double (1 - double (slippage / 10000)))
      in Inr \<lparr>inputAmount = amt,
              outputAmount = outputAmt,
              inputToken = symbol inputTok,
              outputToken = symbol outputTok,
              swap_txSignature = ''mock-swap-tx-'' @ rnd,
              swap_fee = double (amt * double 0.003)\<rparr>)"

definition default_slippageBps :: real where
  "default_slippageBps = 50"

subsection \<open>utils/solana.ts: building and sending the transfer\<close>

text \<open>
  What the code obtains from outside.
  \<^item> \<open>getLatestBlockhash\<close>: the blockhash and last valid block height, \<open>None\<close> when the
    RPC call rejects.
  \<^item> \<open>validKey s\<close>: whether \<open>new PublicKey(s)\<close> accepts the string (it throws otherwise).
  \<^item> \<open>getAssociatedTokenAddress m owner\<close>: the holding-account address derived from mint
    and owner, \<open>None\<close> when the derivation throws.
  \<^item> \<open>accountExists a\<close>: whether the ledger holds a token account at the address \<open>a\<close>;
    \<open>probeFails a\<close>: whether the \<open>getAccount\<close> call for \<open>a\<close> rejects for a reason other than
    the absence of the account (the RPC request fails).
  \<^item> \<open>sendSignature\<close>: the string \<open>mockSendTransaction\<close> encodes from 64 random bytes,
    \<open>None\<close> when its body throws.
  \<^item> \<open>now_id\<close>, \<open>now_ts\<close>: the two readings of \<open>Date.now()\<close> in \<open>handleSubmit\<close>;
    \<open>swapRandom\<close>: the random suffix of the mock swap signature.
\<close>

record env =
  getLatestBlockhash :: "(string \<times> nat) option"
  validKey :: "string \<Rightarrow> bool"
  getAssociatedTokenAddress :: "PublicKey \<Rightarrow> PublicKey \<Rightarrow> PublicKey option"
  accountExists :: "PublicKey \<Rightarrow> bool"
  probeFails :: "PublicKey \<Rightarrow> bool"
  sendSignature :: "string option"
  now_id :: nat
  now_ts :: nat
  swapRandom :: string

text \<open>
  The probe \<open>getAccount(connection, address)\<close>: it resolves when the account exists and can
  be fetched, and rejects otherwise.
\<close>

definition getAccount :: "env \<Rightarrow> PublicKey \<Rightarrow> exn + unit" where
  "getAccount e a =
     (if probeFails e a then Inl ProbeFailure
      else if accountExists e a then Inr ()
      else Inl TokenAccountNotFound)"

text \<open>
  The four kinds of operation a transaction gets: \<open>ComputeBudgetProgram.setComputeUnitLimit\<close>
  (units), \<open>SystemProgram.transfer\<close> (fromPubkey, toPubkey, lamports),
  \<open>createAssociatedTokenAccountInstruction\<close> (payer, associated token account, owner, mint)
  and \<open>createTransferInstruction\<close> (source, destination, owner, amount, multisigners,
  program id). The two transfer constructors encode their amount as an unsigned 64-bit
  integer and throw for a negative one; amounts of \<open>2^64\<close> or more are outside the model.
\<close>

datatype instruction =
    SetComputeUnitLimit nat
  | SystemTransfer PublicKey PublicKey int
  | CreateAssociatedTokenAccount PublicKey PublicKey PublicKey PublicKey
  | TokenTransfer PublicKey PublicKey PublicKey int "PublicKey list" PublicKey

record Transaction =
  feePayer :: PublicKey
  blockhash :: string
  lastValidBlockHeight :: nat
  instructions :: "instruction list"

definition add :: "Transaction \<Rightarrow> instruction \<Rightarrow> Transaction" where
  "add tx i = tx\<lparr>instructions := instructions tx @ [i]\<rparr>"

definition createPaymentTransaction ::
    "env \<Rightarrow> real \<Rightarrow> string \<Rightarrow> PublicKey \<Rightarrow> PublicKey \<Rightarrow> exn + Transaction" where
  "createPaymentTransaction e amt tokenMint fromWallet toWallet =
     (case getLatestBlockhash e of
        None \<Rightarrow> Inl RpcFailure
      | Some (bh, height) \<Rightarrow>
         (let tx0 = \<lparr>feePayer = fromWallet, blockhash = bh, lastValidBlockHeight = height,
                     instructions = []\<rparr>;
              tx1 = add tx0 (SetComputeUnitLimit 200000)
          in if tokenMint = mint SOL then
               (let lamports = \<lfloor>double (amt * LAMPORTS_PER_SOL)\<rfloor>
                in if lamports < 0 then Inl EncodingFailure
                   else Inr (add tx1 (SystemTransfer fromWallet toWallet lamports)))
             else if \<not> validKey e tokenMint then Inl (InvalidPublicKey tokenMint)
             else
               (case getAssociatedTokenAddress e tokenMint fromWallet of
                  None \<Rightarrow> Inl AddressDerivationFailure
                | Some fromTokenAccount \<Rightarrow>
                   (case getAssociatedTokenAddress e tokenMint toWallet of
                      None \<Rightarrow> Inl AddressDerivationFailure
                    | Some toTokenAccount \<Rightarrow>
                       (let tx2 = (if isl (getAccount e toTokenAccount)
                                   then add tx1 (CreateAssociatedTokenAccount
                                                   fromWallet toTokenAccount toWallet tokenMint)
                                   else tx1)
                        in case find_by_mint tokenMint of
                             None \<Rightarrow> Inl (TokenInfoNotFound tokenMint)
                           | Some tokenInfo \<Rightarrow>
                               (let units = \<lfloor>double (amt * 10 ^ decimals tokenInfo)\<rfloor>
                                in if units < 0 then Inl EncodingFailure
                                   else Inr (add tx2 (TokenTransfer fromTokenAccount
                                                        toTokenAccount fromWallet units []
                                                        TOKEN_PROGRAM_ID))))))))"

definition mockSendTransaction :: "env \<Rightarrow> Transaction \<Rightarrow> exn + string" where
  "mockSendTransaction e tx =
     (case sendSignature e of None \<Rightarrow> Inl SendFailure | Some s \<Rightarrow> Inr s)"

subsection \<open>components/PaymentForm.tsx\<close>

datatype form_status = Idle | Quoting | Processing_s | Confirming | Completed_s | Failed_s

text \<open>The messages \<open>setError\<close> is called with.\<close>

datatype form_error =
    ConnectWalletFirst
  | NoQuote
  | InsufficientBalance real string
  | QuoteFetchFailed
  | PaymentFailed

record PaymentFormProps =
  merchantAddress :: string
  preferredToken :: string

record PaymentForm =
  form_amount :: real
  selectedToken :: string
  isProcessing :: bool
  quote :: "Quote option"
  error :: "form_error option"
  success :: bool
  tokenBalance :: "real option"
  paymentStatus :: form_status

text \<open>The state of a freshly mounted form: the arguments of its \<open>useState\<close> calls.\<close>

definition initial_form :: PaymentForm where
  "initial_form = \<lparr>form_amount = 1, selectedToken = mint SOL, isProcessing = False,
                    quote = None, error = None, success = False, tokenBalance = None,
                    paymentStatus = Idle\<rparr>"

text \<open>An identifier that the registry does not resolve is replaced by a default token.\<close>

definition selectedTokenInfo :: "PaymentForm \<Rightarrow> TokenInfo" where
  "selectedTokenInfo f = (case find_by_mint (selectedToken f) of Some t \<Rightarrow> t | None \<Rightarrow> SOL)"

definition preferredTokenInfo :: "PaymentFormProps \<Rightarrow> TokenInfo" where
  "preferredTokenInfo p = (case find_by_mint (preferredToken p) of Some t \<Rightarrow> t | None \<Rightarrow> USDC)"

text \<open>
  The quote effect, once its debounce timer has fired. A string is truthy when it is not
  empty. When the condition fails the effect changes nothing.
\<close>

definition fetchQuote :: "string \<Rightarrow> PaymentFormProps \<Rightarrow> PaymentForm \<Rightarrow> PaymentForm" where
  "fetchQuote rnd p f =
     (if form_amount f > 0 \<and> selectedToken f \<noteq> [] \<and> preferredToken p \<noteq> [] then
        if selectedToken f = preferredToken p then
          f\<lparr>quote := Some
              \<lparr>inputMint = selectedToken f,
               outputMint = preferredToken p,
               inAmount = double (form_amount f * 10 ^ decimals (selectedTokenInfo f)),
               outAmount = double (form_amount f * 10 ^ decimals (preferredTokenInfo p)),
               platform_fee = \<lparr>fee_amount = 0, feeBps = 0\<rparr>,
               priceImpactPct = 0,
               otherAmountThreshold = None, swapMode = None, slippageBps = None,
               routePlan = None, contextSlot = None\<rparr>\<rparr>
        else
          (case getQuote rnd (selectedTokenInfo f) (preferredTokenInfo p) (form_amount f) of
             Inr quoteResult \<Rightarrow> f\<lparr>quote := Some quoteResult, error := None, paymentStatus := Idle\<rparr>
           | Inl err \<Rightarrow> f\<lparr>error := Some QuoteFetchFailed, quote := None, paymentStatus := Idle\<rparr>)
      else f)"

text \<open>\<open>Date.now().toString()\<close>: the decimal digits of the clock reading.\<close>

fun toString :: "nat \<Rightarrow> string" where
  "toString n =
     (if n < 10 then [''0123456789'' ! n]
      else toString (n div 10) @ [''0123456789'' ! (n mod 10)])"

text \<open>
  The body of the \<open>try\<close> block of \<open>handleSubmit\<close>: \<open>Inr\<close> is the payment record passed to
  \<open>onPaymentComplete\<close>, \<open>Inl\<close> what was thrown on the way. The timers only delay.
\<close>

definition payment_flow :: "env \<Rightarrow> PaymentFormProps \<Rightarrow> PublicKey \<Rightarrow> PaymentForm \<Rightarrow> exn + Payment" where
  "payment_flow e p publicKey f =
     (let paymentId = ''payment-'' @ toString (now_id e) in
      if selectedToken f \<noteq> preferredToken p then
        (case executeSwap (swapRandom e) (selectedTokenInfo f) (preferredTokenInfo p)
                (form_amount f) default_slippageBps of
           Inl x \<Rightarrow> Inl x
         | Inr swapResult \<Rightarrow>
            if \<not> validKey e (merchantAddress p) then Inl (InvalidPublicKey (merchantAddress p))
            else
              (case createPaymentTransaction e (outputAmount swapResult) (preferredToken p)
                      publicKey (merchantAddress p) of
                 Inl x \<Rightarrow> Inl x
               | Inr transaction \<Rightarrow>
                  (case mockSendTransaction e transaction of
                     Inl x \<Rightarrow> Inl x
                   | Inr sig \<Rightarrow>
                      Inr \<lparr>payment_id = paymentId,
                           amount = outputAmount swapResult,
                           token = preferredToken p,
                           status = Completed,
                           timestamp = int (now_ts e),
                           merchantId = merchantAddress p,
                           customerWallet = Some publicKey,
                           txSignature = Some sig\<rparr>)))
      else
        if \<not> validKey e (merchantAddress p) then Inl (InvalidPublicKey (merchantAddress p))
        else
          (case createPaymentTransaction e (form_amount f) (selectedToken f)
                  publicKey (merchantAddress p) of
             Inl x \<Rightarrow> Inl x
           | Inr transaction \<Rightarrow>
              (case mockSendTransaction e transaction of
                 Inl x \<Rightarrow> Inl x
               | Inr sig \<Rightarrow>
                  Inr \<lparr>payment_id = paymentId,
                       amount = form_amount f,
                       token = selectedToken f,
                       status = Completed,
                       timestamp = int (now_ts e),
                       merchantId = merchantAddress p,
                       customerWallet = Some publicKey,
                       txSignature = Some sig\<rparr>)))"

text \<open>
  \<open>handleSubmit\<close>: the form state after the handler has run to its end, and the payment
  record it passed to \<open>onPaymentComplete\<close>, if any. \<open>publicKey\<close> is the wallet's key,
  \<open>None\<close> when no wallet is connected.
\<close>

definition handleSubmit ::
    "env \<Rightarrow> PaymentFormProps \<Rightarrow> PublicKey option \<Rightarrow> PaymentForm \<Rightarrow> PaymentForm \<times> Payment option" where
  "handleSubmit e p publicKey f =
     (case publicKey of
        None \<Rightarrow> (f\<lparr>error := Some ConnectWalletFirst\<rparr>, None)
      | Some pk \<Rightarrow>
         (case quote f of
            None \<Rightarrow> (f\<lparr>error := Some NoQuote\<rparr>, None)
          | Some q \<Rightarrow>
             if (case tokenBalance f of None \<Rightarrow> False | Some b \<Rightarrow> form_amount f > b) then
               (f\<lparr>error := Some (InsufficientBalance (the (tokenBalance f))
                                   (symbol (selectedTokenInfo f)))\<rparr>, None)
             else
               (case payment_flow e p pk f of
                  Inr payment \<Rightarrow>
                    (f\<lparr>isProcessing := False, error := None, success := True,
                       paymentStatus := Completed_s\<rparr>, Some payment)
                | Inl x \<Rightarrow>
                    (f\<lparr>isProcessing := False, error := Some PaymentFailed, success := False,
                       paymentStatus := Failed_s\<rparr>, None))))"

subsection \<open>App.tsx\<close>

datatype view_kind = Customer | MerchantView

definition merchant :: Merchant where
  "merchant = \<lparr>merchant_id = ''merchant-1'', merchant_name = ''Solana Shop'',
                walletAddress = ''5YNmS1R9nNSCDzb5a7mMJ1dwK9uHeAAF4CmPEwKgVWc8'',
                merchant_preferredToken = mint USDC\<rparr>"

record App =
  payments :: "Payment list"
  view :: view_kind
  isLoading :: bool

text \<open>The initial state of \<open>App\<close>, with \<open>now\<close> the reading of \<open>Date.now()\<close> at the first render.\<close>

definition initial_payments :: "int \<Rightarrow> Payment list" where
  "initial_payments now =
     [\<lparr>payment_id = ''payment-1'', amount = 10.5, token = mint USDC, status = Completed,
       timestamp = now - 86400000, merchantId = merchant_id merchant,
       customerWallet = Some ''7UX2i7SucgLMQcfZ75s3VXmZZY4YRUyJN9X1RgfMoDUi'',
       txSignature = Some ''5SHVFJBFQcNNrAhAYbBbhy9NJ5AciWxSQqgLele8EJpjvuYVJ2v2odSfZTaZJxgLYSS3uUdwDwqQD1rhNAhzU9Vw''\<rparr>,
      \<lparr>payment_id = ''payment-2'', amount = 5.25, token = mint USDC, status = Completed,
       timestamp = now - 43200000, merchantId = merchant_id merchant,
       customerWallet = Some ''2qXdVr7JKRm4QfVA11vZ6FHPqvZXP4HxMrmdRP7isnKW'',
       txSignature = Some ''3E1Ym2KLRxcALYVBCKPMvXiXBNwzMHia3vLZQKkELwvLCHqu5gVEoHaVo9kj9ZpXmD9YBpKxg4UWjcyYYCPxSvfy''\<rparr>,
      \<lparr>payment_id = ''payment-3'', amount = 2.75, token = mint SOL, status = Completed,
       timestamp = now - 21600000, merchantId = merchant_id merchant,
       customerWallet = Some ''9ZNTfG4NyQgxy2SWjSiQoUyBPEvXT2xo7fKc5hPYYJ7b'',
       txSignature = Some ''4vJ5SrVB3pS6zm3VoqDpxJ7p1T5KpQ6zrz6x9wQZGmBvMX8vN9n3wPtQYKTcUy2UjnFqVuXhbr2qSxNVnqrWWPPZ''\<rparr>]"

definition initial_App :: "int \<Rightarrow> App" where
  "initial_App now = \<lparr>payments = initial_payments now, view = Customer, isLoading = True\<rparr>"

text \<open>
  \<open>handlePaymentComplete\<close> is created anew by every render of \<open>App\<close> and closes over the
  \<open>payments\<close> of that render: \<open>rendered\<close> is the state of the render that created the
  handler, \<open>s\<close> the state at the moment the handler is called. \<open>setPayments\<close> replaces the
  list by the array it is given.
\<close>

definition handlePaymentComplete :: "App \<Rightarrow> Payment \<Rightarrow> App \<Rightarrow> App" where
  "handlePaymentComplete rendered payment s = s\<lparr>payments := payments rendered @ [payment]\<rparr>"


text \<open>The props \<open>App\<close> gives the form.\<close>

definition form_props :: PaymentFormProps where
  "form_props = \<lparr>merchantAddress = walletAddress merchant,
                  preferredToken = merchant_preferredToken merchant\<rparr>"

text \<open>
  One submission seen from \<open>App\<close>: the form's \<open>handleSubmit\<close> runs with the handler of the
  render \<open>rendered\<close>, and the record it emits, if any, goes through that handler.
\<close>

definition submit_payment ::
    "env \<Rightarrow> PublicKey option \<Rightarrow> PaymentForm \<Rightarrow> App \<Rightarrow> App \<Rightarrow> App" where
  "submit_payment e publicKey f rendered s =
     (case snd (handleSubmit e form_props publicKey f) of
        None \<Rightarrow> s
      | Some payment \<Rightarrow> handlePaymentComplete rendered payment s)"

declare toString.simps [simp del]

subsection \<open>Concrete inputs\<close>

text \<open>
  Two wallets whose keys are points of the curve, the customer's and a shop's. The wallet
  of \<open>merchant\<close> is not: the address derivation throws for it.
\<close>

definition customer :: PublicKey where
  "customer = ''7UX2i7SucgLMQcfZ75s3VXmZZY4YRUyJN9X1RgfMoDUi''"

definition shop :: PublicKey where
  "shop = ''9ZNTfG4NyQgxy2SWjSiQoUyBPEvXT2xo7fKc5hPYYJ7b''"

text \<open>
  An environment in which the outside calls succeed and the receiver has no holding
  account yet; one in which the account exists; one in which the account exists and the
  probe fails; one in which the RPC node does not answer the first request.
\<close>

definition env_ok :: env where
  "env_ok = \<lparr>getLatestBlockhash = Some (''blockhash'', 100),
              validKey = (\<lambda>s. True),
              getAssociatedTokenAddress =
                (\<lambda>m owner. if owner = customer \<or> owner = shop then Some (m @ ''/'' @ owner)
                            else None),
              accountExists = (\<lambda>a. False),
              probeFails = (\<lambda>a. False),
              sendSignature = Some ''signature-1'',
              now_id = 7, now_ts = 8, swapRandom = ''r''\<rparr>"

definition env_has_account :: env where
  "env_has_account = env_ok\<lparr>accountExists := (\<lambda>a. True)\<rparr>"

definition env_probe_fails :: env where
  "env_probe_fails = env_ok\<lparr>accountExists := (\<lambda>a. True), probeFails := (\<lambda>a. True)\<rparr>"

definition env_rpc_down :: env where
  "env_rpc_down = env_ok\<lparr>getLatestBlockhash := None\<rparr>"

text \<open>The props of a form that pays the shop in USDC.\<close>

definition shop_props :: PaymentFormProps where
  "shop_props = \<lparr>merchantAddress = shop, preferredToken = mint USDC\<rparr>"

text \<open>The application once its loading timer has fired, showing the customer view.\<close>

definition loaded_App :: App where
  "loaded_App = (initial_App 1700000000000)\<lparr>isLoading := False\<rparr>"

text \<open>
  A freshly mounted form (1 SOL, to be settled in USDC) after its quote effect and its
  balance effect have run.
\<close>

definition ready_form :: PaymentForm where
  "ready_form = (fetchQuote ''q'' form_props initial_form)\<lparr>tokenBalance := Some 5\<rparr>"

text \<open>
  The record \<open>handleSubmit\<close> emits for \<open>ready_form\<close> and \<open>shop_props\<close> in \<open>env_ok\<close>. Its amount
  is the double that \<open>executeSwap\<close> returns for 1 SOL, the one nearest to 149.49875.
\<close>

definition payment_A :: Payment where
  "payment_A = \<lparr>payment_id = ''payment-7'', amount = 5260019646815273 / 35184372088832,
                 token = mint USDC, status = Completed, timestamp = 8, merchantId = shop,
                 customerWallet = Some customer, txSignature = Some ''signature-1''\<rparr>"


section \<open>Properties\<close>

subsection \<open>Rounding to the nearest double\<close>

lemma round_even_error: "\<bar>of_int (round_even y) - y\<bar> \<le> 1 / 2"
  unfolding round_even_def Let_def by (auto simp: abs_le_iff)

lemma exponent_bounds:
  assumes "x \<noteq> 0"
  shows "2 powi exponent x \<le> \<bar>x\<bar> \<and> \<bar>x\<bar> < 2 powi (exponent x + 1)"
proof (cases "1 \<le> \<bar>x\<bar>")
  case True
  define n where "n = \<lfloor>\<bar>x\<bar>\<rfloor>"
  have n: "0 < n" using True by (simp add: n_def)
  have e: "exponent x = bitlen n - 1" using True by (simp add: exponent_def n_def)
  from bitlen_bounds[OF n] have b: "2 ^ nat (bitlen n - 1) \<le> n" "n < 2 ^ nat (bitlen n)" by auto
  have pos: "1 \<le> bitlen n" using n by (auto simp: bitlen_alt_def)
  have "(2::real) ^ nat (bitlen n - 1) \<le> of_int n" using b(1)
    by (metis of_int_le_iff of_int_numeral of_int_power)
  also have "\<dots> \<le> \<bar>x\<bar>" by (simp add: n_def)
  finally have lo: "2 powi exponent x \<le> \<bar>x\<bar>" using pos by (simp add: e power_int_def)
  have "n + 1 \<le> 2 ^ nat (bitlen n)" using b(2) by simp
  then have "of_int (n + 1) \<le> (2::real) ^ nat (bitlen n)"
    by (metis of_int_le_iff of_int_numeral of_int_power)
  moreover have "\<bar>x\<bar> < of_int (n + 1)" unfolding n_def by linarith
  ultimately have "\<bar>x\<bar> < 2 powi (exponent x + 1)" using pos by (simp add: e power_int_def)
  with lo show ?thesis by simp
next
  case False
  define a where "a = \<bar>x\<bar>"
  have a: "0 < a" "a < 1" using assms False by (auto simp: a_def)
  define m where "m = \<lceil>1 / a\<rceil>"
  have y1: "1 < 1 / a" using a by simp
  have m2: "2 \<le> m" unfolding m_def using y1 by linarith
  define k where "k = bitlen (m - 1)"
  have e: "exponent x = - k" using False by (simp add: exponent_def k_def m_def a_def)
  have m1: "0 < m - 1" using m2 by simp
  from bitlen_bounds[OF m1] have b: "2 ^ nat (k - 1) \<le> m - 1" "m - 1 < 2 ^ nat k"
    by (auto simp: k_def)
  have kpos: "1 \<le> k" using m1 by (auto simp: k_def bitlen_alt_def)
  have "m \<le> 2 ^ nat k" using b(2) by simp
  then have "of_int m \<le> (2::real) ^ nat k"
    by (metis of_int_le_iff of_int_numeral of_int_power)
  moreover have "1 / a \<le> of_int m" unfolding m_def by linarith
  ultimately have up: "1 / a \<le> 2 ^ nat k" by linarith
  have "(2::real) ^ nat (k - 1) \<le> of_int (m - 1)" using b(1)
    by (metis of_int_le_iff of_int_numeral of_int_power)
  moreover have "of_int (m - 1) < 1 / a" unfolding m_def by simp linarith
  ultimately have low: "2 ^ nat (k - 1) < 1 / a" by linarith
  have lo: "2 powi exponent x \<le> a"
  proof -
    from up a have "1 \<le> a * 2 ^ nat k" by (simp add: field_simps)
    then have "1 / 2 ^ nat k \<le> a" by (simp add: field_simps)
    then show ?thesis using kpos by (simp add: e power_int_def field_simps)
  qed
  have hi: "a < 2 powi (exponent x + 1)"
  proof -
    from low a have "a * 2 ^ nat (k - 1) < 1" by (simp add: field_simps)
    then have "a < 1 / 2 ^ nat (k - 1)" by (simp add: field_simps)
    moreover have "2 powi (exponent x + 1) = 1 / (2::real) ^ nat (k - 1)"
    proof (cases "k = 1")
      case True then show ?thesis by (simp add: e)
    next
      case F: False
      then have "- k + 1 < 0" using kpos by simp
      moreover have "nat (- (- k + 1)) = nat (k - 1)" by simp
      ultimately show ?thesis by (simp add: e power_int_def field_simps)
    qed
    ultimately show ?thesis by simp
  qed
  from lo hi show ?thesis by (simp add: a_def)
qed

lemma powi2_less_imp:
  assumes "(2::real) powi a < 2 powi b"
  shows "a < b"
proof (rule ccontr)
  assume "\<not> a < b"
  then have "b \<le> a" by simp
  then have "(2::real) powi b \<le> 2 powi a" by (intro power_int_increasing) auto
  with assms show False by simp
qed

lemma exponent_eqI:
  assumes "2 powi e \<le> \<bar>x\<bar>" and "\<bar>x\<bar> < 2 powi (e + 1)"
  shows "exponent x = e"
proof -
  have "x \<noteq> 0"
  proof
    assume "x = 0"
    with assms(1) have "(2::real) powi e \<le> 0" by simp
    moreover have "(0::real) < 2 powi e" by (rule zero_less_power_int) simp
    ultimately show False by linarith
  qed
  from exponent_bounds[OF this] have b: "2 powi exponent x \<le> \<bar>x\<bar>" "\<bar>x\<bar> < 2 powi (exponent x + 1)"
    by auto
  have "(2::real) powi e < 2 powi (exponent x + 1)" using assms(1) b(2) by linarith
  then have 1: "e < exponent x + 1" by (rule powi2_less_imp)
  have "(2::real) powi exponent x < 2 powi (e + 1)" using assms(2) b(1) by linarith
  then have 2: "exponent x < e + 1" by (rule powi2_less_imp)
  from 1 2 show ?thesis by simp
qed

text \<open>Evaluation of \<open>double\<close> once the binade of the argument is known.\<close>

lemma double_eqI:
  assumes "2 powi e \<le> \<bar>x\<bar>" and "\<bar>x\<bar> < 2 powi (e + 1)"
  shows "double x = of_int (round_even (x / 2 powi (e - 52))) * 2 powi (e - 52)"
proof -
  have "x \<noteq> 0"
  proof
    assume "x = 0"
    with assms(1) have "(2::real) powi e \<le> 0" by simp
    moreover have "(0::real) < 2 powi e" by (rule zero_less_power_int) simp
    ultimately show False by linarith
  qed
  then show ?thesis by (simp add: double_def exponent_eqI[OF assms])
qed

lemma double_error:
  "\<bar>double x - x\<bar> \<le> \<bar>x\<bar> / 2 ^ 53"
proof (cases "x = 0")
  case True then show ?thesis by (simp add: double_def)
next
  case False
  define s :: real where "s = 2 powi (exponent x - 52)"
  have s: "0 < s" by (simp add: s_def)
  from exponent_bounds[OF False] have lo: "2 powi exponent x \<le> \<bar>x\<bar>" by simp
  have d: "double x = of_int (round_even (x / s)) * s" using False by (simp add: double_def s_def)
  have "double x - x = (of_int (round_even (x / s)) - x / s) * s"
    using s by (simp add: d field_simps)
  then have "\<bar>double x - x\<bar> = \<bar>of_int (round_even (x / s)) - x / s\<bar> * s"
    using s by (simp add: abs_mult)
  also have "\<dots> \<le> 1 / 2 * s" using round_even_error[of "x / s"] s
    by (intro mult_right_mono) auto
  also have "1 / 2 * s = 2 powi exponent x / 2 ^ 53"
    by (simp add: s_def power_int_diff)
  also have "\<dots> \<le> \<bar>x\<bar> / 2 ^ 53" using lo by (simp add: divide_right_mono)
  finally show ?thesis .
qed

lemma double_bounds:
  assumes "0 \<le> x"
  shows "x * (1 - 1 / 2 ^ 53) \<le> double x" and "double x \<le> x * (1 + 1 / 2 ^ 53)"
proof -
  from double_error[of x] assms have "\<bar>double x - x\<bar> \<le> x / 2 ^ 53" by simp
  then have "double x - x \<le> x / 2 ^ 53" and "- (x / 2 ^ 53) \<le> double x - x"
    by linarith+
  then show "x * (1 - 1 / 2 ^ 53) \<le> double x" and "double x \<le> x * (1 + 1 / 2 ^ 53)"
    by (simp_all add: algebra_simps)
qed

lemma double_nonneg: "0 \<le> x \<Longrightarrow> 0 \<le> double x"
proof -
  assume x: "0 \<le> x"
  have "0 \<le> x * (1 - 1 / 2 ^ 53)" using x by (intro mult_nonneg_nonneg) simp_all
  with double_bounds(1)[OF x] show ?thesis by linarith
qed

lemma double_eq_0_iff: "double x = 0 \<longleftrightarrow> x = 0"
proof
  assume d: "double x = 0"
  from double_error[of x] d have "\<bar>x\<bar> \<le> \<bar>x\<bar> / 2 ^ 53" by simp
  then have "\<bar>x\<bar> * 2 ^ 53 \<le> \<bar>x\<bar>" by (simp add: field_simps)
  then have "\<bar>x\<bar> * (2 ^ 53 - 1) \<le> 0" by (simp add: algebra_simps)
  then have "\<bar>x\<bar> \<le> 0" by (simp add: mult_le_0_iff)
  then show "x = 0" by simp
next
  assume "x = 0" then show "double x = 0" by (simp add: double_def)
qed

lemma floor_double_nonneg: "0 \<le> x \<Longrightarrow> 0 \<le> \<lfloor>double x\<rfloor>"
  by (simp add: double_nonneg)

lemma js_amount_nonneg: "js_amount a \<Longrightarrow> 0 \<le> a"
  by (auto simp add: js_amount_def intro: order_trans[of 0 "1 / 10 ^ 12"])

text \<open>
  The floor of a rounded product: at most the exact product enlarged by the rounding
  error, and less than one below the exact product reduced by it.
\<close>

lemma floor_double_bounds:
  assumes "0 \<le> x"
  shows "of_int \<lfloor>double x\<rfloor> \<le> x * (1 + 1 / 2 ^ 53)"
    and "x * (1 - 1 / 2 ^ 53) - 1 < of_int \<lfloor>double x\<rfloor>"
proof -
  have "of_int \<lfloor>double x\<rfloor> \<le> double x" by simp
  with double_bounds(2)[OF assms] show "of_int \<lfloor>double x\<rfloor> \<le> x * (1 + 1 / 2 ^ 53)"
    by linarith
  have "double x - 1 < of_int \<lfloor>double x\<rfloor>" by linarith
  with double_bounds(1)[OF assms] show "x * (1 - 1 / 2 ^ 53) - 1 < of_int \<lfloor>double x\<rfloor>"
    by linarith
qed

subsection \<open>Values of \<open>double\<close>\<close>

text \<open>
  The doubles that the concrete computations below pass through. Each one is checked by
  \<open>double_eqI\<close> with the binade of its argument.
\<close>

lemma double_value_1: "double (601 / 4) = 601 / 4"
  by (subst double_eqI[where e = 7]) (simp_all add: round_even_def)

lemma double_value_2: "double (3003 / 20) = 5282933469138125 / 35184372088832"
  by (subst double_eqI[where e = 7]) (simp_all add: round_even_def)

lemma double_value_3: "double 1000000 = 1000000"
  by (subst double_eqI[where e = 19]) (simp_all add: round_even_def)

lemma double_value_4: "double (4 / 601) = 7673354439979015 / 1152921504606846976"
  by (subst double_eqI[where e = "-8"]) (simp_all add: round_even_def)

lemma double_value_5: "double (499 / 500) = 4494592428115755 / 4503599627370496"
  by (subst double_eqI[where e = "-1"]) (simp_all add: round_even_def)

lemma double_value_6: "double 6500 = 6500"
  by (subst double_eqI[where e = 12]) (simp_all add: round_even_def)

lemma double_value_7: "double (35184372088832 / 5282933469138125) = 1919616224786625 / 288230376151711744"
  by (subst double_eqI[where e = "-8"]) (simp_all add: round_even_def)

lemma double_value_8: "double (501 / 500) = 4512606826625237 / 4503599627370496"
  by (subst double_eqI[where e = 0]) (simp_all add: round_even_def)

lemma double_value_9: "double 6520 = 6520"
  by (subst double_eqI[where e = 12]) (simp_all add: round_even_def)

lemma double_value_10: "double (1 / 1000000) = 4722366482869645 / 4722366482869645213696"
  by (subst double_eqI[where e = "-20"]) (simp_all add: round_even_def)

lemma double_value_11: "double (3 / 20000) = 5534023222112865 / 36893488147419103232"
  by (subst double_eqI[where e = "-13"]) (simp_all add: round_even_def)

lemma double_value_12: "double (20 / 3003) = 1919616224786625 / 288230376151711744"
  by (subst double_eqI[where e = "-8"]) (simp_all add: round_even_def)

lemma double_value_13: "double 1 = 1"
  by (subst double_eqI[where e = 0]) (simp_all add: round_even_def)

lemma double_value_14: "double (3 / 1000) = 3458764513820541 / 1152921504606846976"
  by (subst double_eqI[where e = "-9"]) (simp_all add: round_even_def)

lemma double_value_15: "double (199 / 200) = 8962163258467287 / 9007199254740992"
  by (subst double_eqI[where e = "-1"]) (simp_all add: round_even_def)

lemma double_value_16: "double (1 / 10) = 3602879701896397 / 36028797018963968"
  by (subst double_eqI[where e = "-4"]) (simp_all add: round_even_def)

lemma double_value_17: "double (3458764513820541 / 1152921504606846976) = 3458764513820541 / 1152921504606846976"
  by (subst double_eqI[where e = "-9"]) (simp_all add: round_even_def)

lemma double_value_18: "double 1000000000 = 1000000000"
  by (subst double_eqI[where e = 29]) (simp_all add: round_even_def)

lemma double_value_19: "double 150250000 = 150250000"
  by (subst double_eqI[where e = 27]) (simp_all add: round_even_def)

lemma double_value_20: "double (5386260118338839487 / 36028797018963968) = 5260019646815273 / 35184372088832"
  by (subst double_eqI[where e = 7]) (simp_all add: round_even_def)

lemma double_value_21: "double (82187806981488640625 / 549755813888) = 149498750"
  by (subst double_eqI[where e = 27]) (simp_all add: round_even_def)

lemma double_value_22: "double (6755399441055744140625 / 2251799813685248) = 3000000"
  by (subst double_eqI[where e = 21]) (simp_all add: round_even_def)

lemma double_value_23: "double (9 / 100) = 3242591731706757 / 36028797018963968"
  by (subst double_eqI[where e = "-4"]) (simp_all add: round_even_def)

lemma double_value_24: "double (3242591731706757 / 36028797018963968) = 3242591731706757 / 36028797018963968"
  by (subst double_eqI[where e = "-4"]) (simp_all add: round_even_def)

lemma double_value_25: "double (1948797630755760957 / 144115188075855872) = 7612490745139691 / 562949953421312"
  by (subst double_eqI[where e = 3]) (simp_all add: round_even_def)

lemma double_value_26: "double (11215361214435227496040735095537 / 41538374868278621028243970633760768) = 4980620899901579 / 18446744073709551616"
  by (subst double_eqI[where e = "-12"]) (simp_all add: round_even_def)

lemma double_value_27: "double (6333186975989759765625 / 70368744177664) = 90000000"
  by (subst double_eqI[where e = 26]) (simp_all add: round_even_def)

lemma double_value_28: "double (118945167892807671875 / 8796093022208) = 13522500"
  by (subst double_eqI[where e = 23]) (simp_all add: round_even_def)

lemma double_value_29: "double (68224384861513198720497368788317 / 5070602400912917605986812821504) = 7574428291413993 / 562949953421312"
  by (subst double_eqI[where e = 3]) (simp_all add: round_even_def)

lemma double_value_30: "double (118350442053343640625 / 8796093022208) = 26909775 / 2"
  by (subst double_eqI[where e = 23]) (simp_all add: round_even_def)

lemma double_value_31: "double (9727775195120271484375 / 36028797018963968) = 270000"
  by (subst double_eqI[where e = 18]) (simp_all add: round_even_def)

lemma double_value_32: "double (3 / 100) = 1080863910568919 / 36028797018963968"
  by (subst double_eqI[where e = "-6"]) (simp_all add: round_even_def)

lemma double_value_33: "double (1080863910568919 / 36028797018963968) = 1080863910568919 / 36028797018963968"
  by (subst double_eqI[where e = "-6"]) (simp_all add: round_even_def)

lemma double_value_34: "double (649599210251920319 / 144115188075855872) = 5074993830093127 / 1125899906842624"
  by (subst double_eqI[where e = 2]) (simp_all add: round_even_def)

lemma double_value_35: "double (3738453738145075832013578365179 / 41538374868278621028243970633760768) = 3320413933267719 / 36893488147419103232"
  by (subst double_eqI[where e = "-14"]) (simp_all add: round_even_def)

lemma double_value_36: "double (2111062325329919921875 / 70368744177664) = 30000000"
  by (subst double_eqI[where e = 24]) (simp_all add: round_even_def)

lemma double_value_37: "double (79296778595205109375 / 17592186044416) = 4839891271679999 / 1073741824"
  by (subst double_eqI[where e = 22]) (simp_all add: round_even_def)

lemma double_value_38: "double (45482923241008796159610493036449 / 10141204801825835211973625643008) = 5049618860942661 / 1125899906842624"
  by (subst double_eqI[where e = 2]) (simp_all add: round_even_def)

lemma double_value_39: "double (78900294702229078125 / 17592186044416) = 4815691815321599 / 1073741824"
  by (subst double_eqI[where e = 22]) (simp_all add: round_even_def)

lemma double_value_40: "double (6485183463413513671875 / 72057594037927936) = 6184752906239999 / 68719476736"
  by (subst double_eqI[where e = 16]) (simp_all add: round_even_def)

lemma double_value_41: "double (1 / 200) = 5764607523034235 / 1152921504606846976"
  by (subst double_eqI[where e = "-8"]) (simp_all add: round_even_def)

lemma double_value_42: "double (1147156897083812741 / 1152921504606846976) = 8962163258467287 / 9007199254740992"
  by (subst double_eqI[where e = "-1"]) (simp_all add: round_even_def)

lemma double_value_43: "double (5260019646815273 / 35184372088832) = 5260019646815273 / 35184372088832"
  by (subst double_eqI[where e = 7]) (simp_all add: round_even_def)

lemma double_value_44: "double (41 / 5) = 2308094809027379 / 281474976710656"
  by (subst double_eqI[where e = 3]) (simp_all add: round_even_def)

lemma double_value_45: "double (2308094809027379 / 281474976710656) = 2308094809027379 / 281474976710656"
  by (subst double_eqI[where e = 3]) (simp_all add: round_even_def)

lemma double_value_46: "double (36063981391052796875 / 4398046511104) = 8804682956799999 / 1073741824"
  by (subst double_eqI[where e = 22]) (simp_all add: round_even_def)

lemma double_value_47: "double (9 / 1000) = 5188146770730811 / 576460752303423488"
  by (subst double_eqI[where e = "-7"]) (simp_all add: round_even_def)

lemma double_value_48: "double (5188146770730811 / 576460752303423488) = 5188146770730811 / 576460752303423488"
  by (subst double_eqI[where e = "-7"]) (simp_all add: round_even_def)

lemma double_value_49: "double (81064793292668921875 / 9007199254740992) = 9000"
  by (subst double_eqI[where e = 13]) (simp_all add: round_even_def)

lemma double_value_50: "double (11 / 1000) = 3170534137668829 / 288230376151711744"
  by (subst double_eqI[where e = "-7"]) (simp_all add: round_even_def)

lemma double_value_51: "double (3170534137668829 / 288230376151711744) = 3170534137668829 / 288230376151711744"
  by (subst double_eqI[where e = "-7"]) (simp_all add: round_even_def)

lemma double_value_52: "double (49539595901075453125 / 4503599627370496) = 11000"
  by (subst double_eqI[where e = 13]) (simp_all add: round_even_def)

lemma double_value_53: "double (1 / 10000000) = 944473296573929 / 9444732965739290427392"
  by (subst double_eqI[where e = "-24"]) (simp_all add: round_even_def)

lemma double_value_54: "double (944473296573929 / 9444732965739290427392) = 944473296573929 / 9444732965739290427392"
  by (subst double_eqI[where e = "-24"]) (simp_all add: round_even_def)

lemma double_value_55: "double (14757395258967640625 / 147573952589676412928) = 7205759403792793 / 72057594037927936"
  by (subst double_eqI[where e = "-4"]) (simp_all add: round_even_def)

lemma double_value_56: "double (21 / 2) = 21 / 2"
  by (subst double_eqI[where e = 3]) (simp_all add: round_even_def)

lemma double_value_57: "double 10500000 = 10500000"
  by (subst double_eqI[where e = 23]) (simp_all add: round_even_def)

lemma double_value_58: "double 2750000000 = 2750000000"
  by (subst double_eqI[where e = 31]) (simp_all add: round_even_def)

lemma double_value_59: "double (11 / 4) = 11 / 4"
  by (subst double_eqI[where e = 1]) (simp_all add: round_even_def)

lemma double_value_60: "double (20282328474013255817121440308935 / 20282409603651670423947251286016) = 9007163225943973 / 9007199254740992"
  by (subst double_eqI[where e = "-1"]) (simp_all add: round_even_def)

lemma double_value_61: "double (9007163225943973 / 9007199254740992) = 9007163225943973 / 9007199254740992"
  by (subst double_eqI[where e = "-1"]) (simp_all add: round_even_def)

lemma double_value_62: "double (140736925405374578125 / 140737488355328) = 999996"
  by (subst double_eqI[where e = 19]) (simp_all add: round_even_def)

lemma double_value_63: "double (80723667326572757469505715311251 / 81129638414606681695789005144064) = 8962127409814253 / 9007199254740992"
  by (subst double_eqI[where e = "-1"]) (simp_all add: round_even_def)

lemma double_value_64: "double (140033240778347703125 / 140737488355328) = 2136737682775081 / 2147483648"
  by (subst double_eqI[where e = 19]) (simp_all add: round_even_def)

lemma double_value_65: "double (54043195528445953125 / 18014398509481984) = 3000"
  by (subst double_eqI[where e = 11]) (simp_all add: round_even_def)

lemma double_value_66: "double (8992787735933405625 / 9223372036854775808) = 4391009636686233 / 4503599627370496"
  by (subst double_eqI[where e = "-1"]) (simp_all add: round_even_def)

lemma double_value_67: "double (39 / 40) = 8782019273372467 / 9007199254740992"
  by (subst double_eqI[where e = "-1"]) (simp_all add: round_even_def)

lemma double_value_68: "double (4611686018427388015 / 4611686018427387904) = 1"
  by (subst double_eqI[where e = 0]) (simp_all add: round_even_def)

lemma double_value_69: "double (- 1000000000) = - 1000000000"
  by (subst double_eqI[where e = 29]) (simp_all add: round_even_def)

lemma double_value_70: "double (1152921504606846976 / 7673354439979015) = 601 / 4"
  by (subst double_eqI[where e = 7]) (simp_all add: round_even_def)

lemma double_value_71: "double (288230376151711744 / 1919616224786625) = 5282933469138125 / 35184372088832"
  by (subst double_eqI[where e = 7]) (simp_all add: round_even_def)

lemma double_value_72: "double (4722366482869645213696 / 4722366482869645) = 1000000"
  by (subst double_eqI[where e = 19]) (simp_all add: round_even_def)

lemmas double_values =
  double_value_1
  double_value_2
  double_value_3
  double_value_4
  double_value_5
  double_value_6
  double_value_7
  double_value_8
  double_value_9
  double_value_10
  double_value_11
  double_value_12
  double_value_13
  double_value_14
  double_value_15
  double_value_16
  double_value_17
  double_value_18
  double_value_19
  double_value_20
  double_value_21
  double_value_22
  double_value_23
  double_value_24
  double_value_25
  double_value_26
  double_value_27
  double_value_28
  double_value_29
  double_value_30
  double_value_31
  double_value_32
  double_value_33
  double_value_34
  double_value_35
  double_value_36
  double_value_37
  double_value_38
  double_value_39
  double_value_40
  double_value_41
  double_value_42
  double_value_43
  double_value_44
  double_value_45
  double_value_46
  double_value_47
  double_value_48
  double_value_49
  double_value_50
  double_value_51
  double_value_52
  double_value_53
  double_value_54
  double_value_55
  double_value_56
  double_value_57
  double_value_58
  double_value_59
  double_value_60
  double_value_61
  double_value_62
  double_value_63
  double_value_64
  double_value_65
  double_value_66
  double_value_67
  double_value_68
  double_value_69
  double_value_70
  double_value_71
  double_value_72
subsection \<open>Facts about the registry and the rate table\<close>

lemma registry_cases:
  "t \<in> set (Object_values TOKENS) \<Longrightarrow> t = SOL \<or> t = USDC \<or> t = USDT \<or> t = BONK \<or> t = JUP"
  by (auto simp add: Object_values_def TOKENS_def)

lemma mint_values:
  "mint SOL = ''So11111111111111111111111111111111111111112''"
  "mint USDC = ''EPjFWdd5AufqSSqeM2qN1xzybapC8G4wEGGkZwyTDt1v''"
  "mint USDT = ''Es9vMFrzaCERmJfrF4H2FYD4KCoNkY11McCe8BenwNYB''"
  "mint BONK = ''DezXAZ8z7PnrnRJjz3wXBoRgixCa6xjnB7YaB1pPB263''"
  "mint JUP = ''JUPyiwrYJFskUPiHa7hkeR8VUtAeFoSYbKedZNsDvCN''"
  by (simp_all add: SOL_def USDC_def USDT_def BONK_def JUP_def)

lemma decimals_values:
  "decimals SOL = 9" "decimals USDC = 6" "decimals USDT = 6" "decimals BONK = 5" "decimals JUP = 6"
  by (simp_all add: SOL_def USDC_def USDT_def BONK_def JUP_def)

lemma symbol_values:
  "symbol SOL = ''SOL''" "symbol USDC = ''USDC''"
  by (simp_all add: SOL_def USDC_def)

lemma find_by_mint_values:
  "find_by_mint (mint SOL) = Some SOL"
  "find_by_mint (mint USDC) = Some USDC"
  "find_by_mint (mint USDT) = Some USDT"
  "find_by_mint (mint BONK) = Some BONK"
  "find_by_mint (mint JUP) = Some JUP"
  by (simp_all add: find_by_mint_def Object_values_def TOKENS_def mint_values)

lemma find_by_mint_registry:
  "t \<in> set (Object_values TOKENS) \<Longrightarrow> find_by_mint (mint t) = Some t"
  by (drule registry_cases) (auto simp add: find_by_mint_values)

lemma mint_registry_nonempty:
  "t \<in> set (Object_values TOKENS) \<Longrightarrow> mint t \<noteq> []"
  by (drule registry_cases) (auto simp add: mint_values)


lemma USDC_in_registry: "USDC \<in> set (Object_values TOKENS)"
  by (simp add: Object_values_def TOKENS_def)

lemma SOL_in_registry: "SOL \<in> set (Object_values TOKENS)"
  by (simp add: Object_values_def TOKENS_def)

lemma mint_SOL_neq_USDC: "mint SOL \<noteq> mint USDC"
  by (simp add: mint_values)

text \<open>Every entry of the table is a non-zero number, so the truthiness test is a presence test.\<close>

lemma truthy_rate_eq: "truthy_rate a b = rate_entry a b"
  by (simp add: truthy_rate_def rate_entry_def rates_def split: option.splits)

lemma rate_values:
  "getMockExchangeRate ''SOL'' ''USDC'' = 150.25"
  "getMockExchangeRate ''SOL'' ''USDT'' = 150.15"
  "getMockExchangeRate ''SOL'' ''BONK'' = 1000000"
  "getMockExchangeRate ''USDC'' ''SOL'' = 1 / 150.25"
  "getMockExchangeRate ''USDC'' ''USDT'' = 0.998"
  "getMockExchangeRate ''USDC'' ''BONK'' = 6500"
  "getMockExchangeRate ''USDT'' ''SOL'' = 1 / 150.15"
  "getMockExchangeRate ''USDT'' ''USDC'' = 1.002"
  "getMockExchangeRate ''USDT'' ''BONK'' = 6520"
  "getMockExchangeRate ''BONK'' ''SOL'' = 0.000001"
  "getMockExchangeRate ''BONK'' ''USDC'' = 0.00015"
  "getMockExchangeRate ''BONK'' ''USDT'' = 0.00015"
  by (simp_all add: getMockExchangeRate_def truthy_rate_eq rate_entry_def rates_def)



lemma table_symbols_cases:
  "a \<in> set table_symbols \<Longrightarrow> a = ''SOL'' \<or> a = ''USDC'' \<or> a = ''USDT'' \<or> a = ''BONK''"
  by (simp add: table_symbols_def rates_def)


text \<open>The numbers \<open>getMockExchangeRate_double\<close> returns for the pairs of the table.\<close>

lemma double_entry_values:
  "double_entry ''SOL'' ''USDC'' = Some (601 / 4)"
  "double_entry ''SOL'' ''USDT'' = Some (5282933469138125 / 35184372088832)"
  "double_entry ''SOL'' ''BONK'' = Some 1000000"
  "double_entry ''USDC'' ''SOL'' = Some (7673354439979015 / 1152921504606846976)"
  "double_entry ''USDC'' ''USDT'' = Some (4494592428115755 / 4503599627370496)"
  "double_entry ''USDC'' ''BONK'' = Some 6500"
  "double_entry ''USDT'' ''SOL'' = Some (1919616224786625 / 288230376151711744)"
  "double_entry ''USDT'' ''USDC'' = Some (4512606826625237 / 4503599627370496)"
  "double_entry ''USDT'' ''BONK'' = Some 6520"
  "double_entry ''BONK'' ''SOL'' = Some (4722366482869645 / 4722366482869645213696)"
  "double_entry ''BONK'' ''USDC'' = Some (5534023222112865 / 36893488147419103232)"
  "double_entry ''BONK'' ''USDT'' = Some (5534023222112865 / 36893488147419103232)"
  by (simp_all add: double_entry_def rates_double_def double_values)

lemma rate_double_values:
  "getMockExchangeRate_double ''SOL'' ''USDC'' = 601 / 4"
  "getMockExchangeRate_double ''SOL'' ''USDT'' = 5282933469138125 / 35184372088832"
  "getMockExchangeRate_double ''SOL'' ''BONK'' = 1000000"
  "getMockExchangeRate_double ''USDC'' ''SOL'' = 7673354439979015 / 1152921504606846976"
  "getMockExchangeRate_double ''USDC'' ''USDT'' = 4494592428115755 / 4503599627370496"
  "getMockExchangeRate_double ''USDC'' ''BONK'' = 6500"
  "getMockExchangeRate_double ''USDT'' ''SOL'' = 1919616224786625 / 288230376151711744"
  "getMockExchangeRate_double ''USDT'' ''USDC'' = 4512606826625237 / 4503599627370496"
  "getMockExchangeRate_double ''USDT'' ''BONK'' = 6520"
  "getMockExchangeRate_double ''BONK'' ''SOL'' = 4722366482869645 / 4722366482869645213696"
  "getMockExchangeRate_double ''BONK'' ''USDC'' = 5534023222112865 / 36893488147419103232"
  "getMockExchangeRate_double ''BONK'' ''USDT'' = 5534023222112865 / 36893488147419103232"
  by (simp_all add: getMockExchangeRate_double_def truthy_double_def double_entry_values)

text \<open>
  Each of them is the double nearest to the exact value of the table: reading the
  literals as decimal fractions and rounding once gives the number the code holds.
\<close>

lemma rate_double_nearest:
  assumes "a \<in> set table_symbols" and "b \<in> set table_symbols" and "a \<noteq> b"
  shows "getMockExchangeRate_double a b = double (getMockExchangeRate a b)"
  using table_symbols_cases[OF assms(1)] table_symbols_cases[OF assms(2)] assms(3)
  by (auto simp add: rate_values rate_double_values double_values)

text \<open>
  In doubles, too, the two directions of a pair with SOL are reciprocals of one another:
  dividing 1 by the one rate gives the other.
\<close>

lemma reciprocal_in_doubles:
  assumes "b \<in> set table_symbols" and "b \<noteq> ''SOL''"
  shows "getMockExchangeRate_double ''SOL'' b = double (1 / getMockExchangeRate_double b ''SOL'')"
    and "getMockExchangeRate_double b ''SOL'' = double (1 / getMockExchangeRate_double ''SOL'' b)"
  using table_symbols_cases[OF assms(1)] assms(2)
  by (auto simp add: rate_double_values double_values)

text \<open>Every number the function returns is positive or zero.\<close>

lemma double_entry_nonneg: "double_entry a b = Some r \<Longrightarrow> 0 \<le> r"
  by (auto simp add: double_entry_def rates_double_def double_nonneg
           split: option.splits if_splits)

lemma rate_double_nonneg: "0 \<le> getMockExchangeRate_double a b"
proof -
  have t: "truthy_double x y = Some r \<Longrightarrow> 0 \<le> r" for x y r
    using double_entry_nonneg[of x y]
    by (auto simp add: truthy_double_def split: option.splits if_splits)
  show ?thesis
    unfolding getMockExchangeRate_double_def
    by (auto split: option.splits intro!: double_nonneg mult_nonneg_nonneg dest: t)
qed

subsection \<open>The quote\<close>

lemma form_props_values:
  "merchantAddress form_props = walletAddress merchant"
  "preferredToken form_props = mint USDC"
  by (simp_all add: form_props_def merchant_def)

lemma getQuote_Inr: "\<not> isl (getQuote rnd i out amt)"
  by (simp add: getQuote_def Let_def)

lemma getQuote_SOL_USDC:
  "getQuote rnd SOL USDC 1 =
     Inr \<lparr>inputMint = mint SOL, outputMint = mint USDC,
          inAmount = 1000000000, outAmount = 150250000,
          platform_fee = \<lparr>fee_amount = 3000000, feeBps = 30\<rparr>,
          priceImpactPct = double 0.1,
          otherAmountThreshold = Some 149498750,
          swapMode = Some ''ExactIn'', slippageBps = Some 50,
          routePlan = Some
            [\<lparr>ammKey = ''JUP'' @ rnd, label = ''Jupiter Aggregator'',
              si_inputMint = mint SOL, si_outputMint = mint USDC,
              si_inAmount = 1000000000, si_outAmount = 150250000,
              feeAmount = 3000000, feeMint = mint SOL\<rparr>],
          contextSlot = Some 234567890\<rparr>"
  by (simp add: getQuote_def Let_def symbol_values decimals_values rate_double_values
        double_values)

text \<open>
  The floor is taken after the product has been rounded. For the double nearest to 0.09
  the exact product with the rate and \<open>10^6\<close> is below 13522500, the rounded product is
  13522500, and this is the quoted amount.
\<close>

lemma getQuote_rounds_up:
  "outAmount (projr (getQuote rnd SOL USDC (double 0.09))) = 13522500
   \<and> \<lfloor>double 0.09 * getMockExchangeRate_double (symbol SOL) (symbol USDC) * 10 ^ decimals USDC\<rfloor>
       = 13522499"
  by (simp add: getQuote_def Let_def symbol_values decimals_values rate_double_values
        double_values)

text \<open>For the double nearest to 0.03 the quote is 4507499 base units, the fee 89999.\<close>

lemma getQuote_three_hundredths:
  "outAmount (projr (getQuote rnd SOL USDC (double 0.03))) = 4507499
   \<and> fee_amount (platform_fee (projr (getQuote rnd SOL USDC (double 0.03)))) = 89999
   \<and> otherAmountThreshold (projr (getQuote rnd SOL USDC (double 0.03))) = Some 4484962"
  by (simp add: getQuote_def Let_def symbol_values decimals_values rate_double_values
        double_values)

lemma swap_output:
  "executeSwap r SOL USDC 1 default_slippageBps =
     Inr \<lparr>inputAmount = 1, outputAmount = 5260019646815273 / 35184372088832,
          inputToken = ''SOL'', outputToken = ''USDC'',
          swap_txSignature = ''mock-swap-tx-'' @ r,
          swap_fee = 3458764513820541 / 1152921504606846976\<rparr>"
  by (simp add: executeSwap_def Let_def symbol_values rate_double_values default_slippageBps_def
        double_values)

text \<open>
  \<open>getQuote\<close> has no branch for equal tokens: asked for USDT into USDT it takes the route
  through USDC (1.002 * 0.998), charges the fee and reports the price impact 0.1. The form
  does not call it when the two identifiers are equal.
\<close>

lemma getQuote_same_token:
  "outAmount (projr (getQuote rnd USDT USDT 1)) = 999996
   \<and> inAmount (projr (getQuote rnd USDT USDT 1)) = 1000000
   \<and> fee_amount (platform_fee (projr (getQuote rnd USDT USDT 1))) = 3000
   \<and> priceImpactPct (projr (getQuote rnd USDT USDT 1)) = double 0.1"
  by (simp add: getQuote_def Let_def USDT_def getMockExchangeRate_double_def truthy_double_def
        double_entry_def rates_double_def double_values)

text \<open>Two roundings and a floor, against the exact product.\<close>

lemma floor_double_product_bounds:
  assumes "0 \<le> x" and "0 \<le> k"
  shows "of_int \<lfloor>double (double x * k)\<rfloor> \<le> x * k * (1 + 1 / 2 ^ 53)\<^sup>2"
    and "x * k * (1 - 1 / 2 ^ 53)\<^sup>2 - 1 < of_int \<lfloor>double (double x * k)\<rfloor>"
proof -
  have z: "0 \<le> double x * k" using assms by (simp add: double_nonneg)
  have "double x * k \<le> x * (1 + 1 / 2 ^ 53) * k"
    using double_bounds(2)[OF assms(1)] assms(2) by (rule mult_right_mono)
  then have "double x * k * (1 + 1 / 2 ^ 53) \<le> x * (1 + 1 / 2 ^ 53) * k * (1 + 1 / 2 ^ 53)"
    by (rule mult_right_mono) simp
  also have "\<dots> = x * k * (1 + 1 / 2 ^ 53)\<^sup>2" by (simp add: power2_eq_square)
  finally show "of_int \<lfloor>double (double x * k)\<rfloor> \<le> x * k * (1 + 1 / 2 ^ 53)\<^sup>2"
    using floor_double_bounds(1)[OF z] by linarith
  have "x * (1 - 1 / 2 ^ 53) * k \<le> double x * k"
    using double_bounds(1)[OF assms(1)] assms(2) by (rule mult_right_mono)
  then have "x * (1 - 1 / 2 ^ 53) * k * (1 - 1 / 2 ^ 53) \<le> double x * k * (1 - 1 / 2 ^ 53)"
    by (rule mult_right_mono) simp
  moreover have "x * (1 - 1 / 2 ^ 53) * k * (1 - 1 / 2 ^ 53) = x * k * (1 - 1 / 2 ^ 53)\<^sup>2"
    by (simp add: power2_eq_square)
  ultimately show "x * k * (1 - 1 / 2 ^ 53)\<^sup>2 - 1 < of_int \<lfloor>double (double x * k)\<rfloor>"
    using floor_double_bounds(2)[OF z] by linarith
qed

text \<open>
  C1 (as amended). For every quote between registry tokens in which a swap is simulated,
  for an amount in the range of \<open>js_amount\<close>, the quote's output amount is the floor of the product of amount,
  rate and \<open>10^outputDecimals\<close> as the doubles compute it (each multiplication rounded),
  with no slippage deducted; it differs from the exact product by less than one base unit
  and two rounding errors. The amount reduced by the slippage tolerance,
  \<open>floor((amount * rate * 0.995) * 10^outputDecimals)\<close> in doubles, is the quote's
  minimum-output threshold, and \<open>amount * rate * (1 - slippageBps / 10000)\<close> in doubles is
  the output amount of the simulated swap. When the input and the output token are the
  same registry token, the quote's output amount equals its input amount.
\<close>

theorem quote_output_amounts:
  assumes "t \<in> set (Object_values TOKENS)" and "0 < form_amount f"
    and "selectedToken f = mint t" and "preferredToken p = mint t"
    and "js_amount amt"
    and "i \<in> set (Object_values TOKENS)" and "out \<in> set (Object_values TOKENS)"
  shows "\<not> isl (getQuote rnd i out amt)
     \<and> outAmount (projr (getQuote rnd i out amt)) =
         of_int \<lfloor>double (double (amt * getMockExchangeRate_double (symbol i) (symbol out))
                          * 10 ^ decimals out)\<rfloor>
     \<and> outAmount (projr (getQuote rnd i out amt))
         \<le> amt * getMockExchangeRate_double (symbol i) (symbol out) * 10 ^ decimals out
             * (1 + 1 / 2 ^ 53)\<^sup>2
     \<and> amt * getMockExchangeRate_double (symbol i) (symbol out) * 10 ^ decimals out
             * (1 - 1 / 2 ^ 53)\<^sup>2 - 1
         < outAmount (projr (getQuote rnd i out amt))
     \<and> otherAmountThreshold (projr (getQuote rnd i out amt)) =
         Some (of_int \<lfloor>double (double (double (amt * getMockExchangeRate_double (symbol i)
                                                     (symbol out)) * double 0.995)
                                 * 10 ^ decimals out)\<rfloor>)
     \<and> \<not> isl (executeSwap rnd i out amt slippage)
     \<and> outputAmount (projr (executeSwap rnd i out amt slippage)) =
         double (double (amt * getMockExchangeRate_double (symbol i) (symbol out))
                 * double (1 - double (slippage / 10000)))
     \<and> (\<exists>q. quote (fetchQuote rnd p f) = Some q \<and> outAmount q = inAmount q)"
proof -
  have x: "0 \<le> amt * getMockExchangeRate_double (symbol i) (symbol out)"
    using js_amount_nonneg[OF assms(5)] rate_double_nonneg by (rule mult_nonneg_nonneg)
  have k: "(0::real) \<le> 10 ^ decimals out" by simp
  note b = floor_double_product_bounds[OF x k]
  have same: "\<exists>q. quote (fetchQuote rnd p f) = Some q \<and> outAmount q = inAmount q"
    using assms(1-4) find_by_mint_registry[OF assms(1)] mint_registry_nonempty[OF assms(1)]
    by (simp add: fetchQuote_def selectedTokenInfo_def preferredTokenInfo_def)
  show ?thesis
    using b same by (simp add: getQuote_def executeSwap_def Let_def)
qed

text \<open>
  Witness for C1: 1 SOL quoted and swapped into USDC, and 10.5 USDC paid to a merchant who
  settles in USDC.
\<close>

theorem quote_output_amounts_witness:
  "USDC \<in> set (Object_values TOKENS)
   \<and> 0 < form_amount (initial_form\<lparr>form_amount := 10.5, selectedToken := mint USDC\<rparr>)
   \<and> selectedToken (initial_form\<lparr>form_amount := 10.5, selectedToken := mint USDC\<rparr>) = mint USDC
   \<and> preferredToken form_props = mint USDC
   \<and> js_amount 1
   \<and> SOL \<in> set (Object_values TOKENS)
   \<and> outAmount (projr (getQuote [] SOL USDC 1)) = 150250000
   \<and> otherAmountThreshold (projr (getQuote [] SOL USDC 1)) = Some 149498750
   \<and> outputAmount (projr (executeSwap [] SOL USDC 1 50)) = 5260019646815273 / 35184372088832
   \<and> (\<exists>q. quote (fetchQuote [] form_props
                  (initial_form\<lparr>form_amount := 10.5, selectedToken := mint USDC\<rparr>)) = Some q
          \<and> outAmount q = inAmount q)"
  using quote_output_amounts[where t = USDC
          and f = "initial_form\<lparr>form_amount := 10.5, selectedToken := mint USDC\<rparr>"
          and p = form_props and amt = 1 and rnd = "[]" and i = SOL and out = USDC
          and slippage = 50]
  by (simp add: USDC_in_registry SOL_in_registry form_props_values initial_form_def
        symbol_values decimals_values rate_double_values double_values js_amount_def)

text \<open>
  Counterexample to C1 as stated: the quote for 1 SOL into USDC has the output amount
  150250000 base units (150.25 USDC), whereas \<open>amount * rate * (1 - slippage)\<close> is
  149498750 base units (149.49875 USDC).
\<close>

theorem quote_output_has_no_slippage:
  "\<not> isl (getQuote [] SOL USDC 1)
   \<and> mint SOL \<noteq> mint USDC
   \<and> outAmount (projr (getQuote [] SOL USDC 1)) = 150250000
   \<and> 1 * getMockExchangeRate (symbol SOL) (symbol USDC) * (1 - 0.005) * 10 ^ decimals USDC
       = 149498750
   \<and> outAmount (projr (getQuote [] SOL USDC 1)) \<noteq>
       1 * getMockExchangeRate (symbol SOL) (symbol USDC) * (1 - 0.005) * 10 ^ decimals USDC"
  by (simp add: getQuote_SOL_USDC mint_SOL_neq_USDC symbol_values decimals_values rate_values)




text \<open>
  C4. For every token \<open>t\<close> of the registry and every positive amount, the quote of \<open>t\<close> into
  \<open>t\<close> has an output amount equal to its input amount, a fee of 0 and a price impact of 0.
  The input amount is the product of the amount and \<open>10^decimals\<close>, as the doubles compute
  it.
\<close>

theorem same_token_quote_is_identity:
  assumes "t \<in> set (Object_values TOKENS)" and "0 < form_amount f"
    and "selectedToken f = mint t" and "preferredToken p = mint t"
  shows "\<exists>q. quote (fetchQuote rnd p f) = Some q
           \<and> outAmount q = inAmount q
           \<and> inAmount q = double (form_amount f * 10 ^ decimals t)
           \<and> fee_amount (platform_fee q) = 0
           \<and> feeBps (platform_fee q) = 0
           \<and> priceImpactPct q = 0"
  using assms find_by_mint_registry[OF assms(1)] mint_registry_nonempty[OF assms(1)]
  by (simp add: fetchQuote_def selectedTokenInfo_def preferredTokenInfo_def)

text \<open>Witness for C4: 10.5 USDC paid to the merchant who settles in USDC.\<close>

theorem same_token_quote_is_identity_witness:
  "USDC \<in> set (Object_values TOKENS)
   \<and> 0 < form_amount (initial_form\<lparr>form_amount := 10.5, selectedToken := mint USDC\<rparr>)
   \<and> selectedToken (initial_form\<lparr>form_amount := 10.5, selectedToken := mint USDC\<rparr>) = mint USDC
   \<and> preferredToken form_props = mint USDC
   \<and> (\<exists>q. quote (fetchQuote [] form_props
                  (initial_form\<lparr>form_amount := 10.5, selectedToken := mint USDC\<rparr>)) = Some q
          \<and> outAmount q = inAmount q \<and> inAmount q = 10500000
          \<and> fee_amount (platform_fee q) = 0 \<and> feeBps (platform_fee q) = 0
          \<and> priceImpactPct q = 0)"
  using same_token_quote_is_identity[of USDC
          "initial_form\<lparr>form_amount := 10.5, selectedToken := mint USDC\<rparr>" form_props "[]"]
  by (simp add: USDC_in_registry form_props_values initial_form_def decimals_values double_values)

subsection \<open>The exchange rate\<close>






subsection \<open>The transfer builder\<close>

lemma merchant_wallet: "walletAddress merchant \<noteq> customer" "walletAddress merchant \<noteq> shop"
  by (simp_all add: merchant_def customer_def shop_def)

lemma env_values:
  "getLatestBlockhash env_ok = Some (''blockhash'', 100)"
  "validKey env_ok k"
  "getAssociatedTokenAddress env_ok m customer = Some (m @ ''/'' @ customer)"
  "getAssociatedTokenAddress env_ok m shop = Some (m @ ''/'' @ shop)"
  "getAssociatedTokenAddress env_ok m (walletAddress merchant) = None"
  "\<not> accountExists env_ok a" "\<not> probeFails env_ok a"
  "sendSignature env_ok = Some ''signature-1''"
  "now_id env_ok = 7" "now_ts env_ok = 8" "swapRandom env_ok = ''r''"
  by (simp_all add: env_ok_def merchant_wallet)

lemma env_has_account_values:
  "getLatestBlockhash env_has_account = Some (''blockhash'', 100)"
  "validKey env_has_account k"
  "getAssociatedTokenAddress env_has_account m customer = Some (m @ ''/'' @ customer)"
  "getAssociatedTokenAddress env_has_account m shop = Some (m @ ''/'' @ shop)"
  "accountExists env_has_account a" "\<not> probeFails env_has_account a"
  by (simp_all add: env_has_account_def env_ok_def)

lemma env_probe_fails_values:
  "getLatestBlockhash env_probe_fails = Some (''blockhash'', 100)"
  "validKey env_probe_fails k"
  "getAssociatedTokenAddress env_probe_fails m customer = Some (m @ ''/'' @ customer)"
  "getAssociatedTokenAddress env_probe_fails m shop = Some (m @ ''/'' @ shop)"
  "accountExists env_probe_fails a" "probeFails env_probe_fails a"
  by (simp_all add: env_probe_fails_def env_ok_def)

lemma env_rpc_down_values:
  "getLatestBlockhash env_rpc_down = None"
  "validKey env_rpc_down k"
  by (simp_all add: env_rpc_down_def env_ok_def)

lemma getAccount_values:
  "isl (getAccount env_ok a)" "\<not> isl (getAccount env_has_account a)"
  "isl (getAccount env_probe_fails a)"
  by (simp_all add: getAccount_def env_values env_has_account_values env_probe_fails_values)

text \<open>
  The transaction built for a registry token other than SOL and a non-negative amount,
  when the blockhash request and the address derivations succeed.
\<close>

lemma createPaymentTransaction_token:
  assumes "t \<in> set (Object_values TOKENS)" and "mint t \<noteq> mint SOL"
    and "getLatestBlockhash e = Some (bh, h)" and "validKey e (mint t)"
    and "getAssociatedTokenAddress e (mint t) fromWallet = Some fromTokenAccount"
    and "getAssociatedTokenAddress e (mint t) toWallet = Some toTokenAccount"
    and "0 \<le> amt"
  shows "createPaymentTransaction e amt (mint t) fromWallet toWallet =
     Inr \<lparr>feePayer = fromWallet, blockhash = bh, lastValidBlockHeight = h,
          instructions =
            [SetComputeUnitLimit 200000]
            @ (if isl (getAccount e toTokenAccount)
               then [CreateAssociatedTokenAccount fromWallet toTokenAccount toWallet (mint t)]
               else [])
            @ [TokenTransfer fromTokenAccount toTokenAccount fromWallet
                 \<lfloor>double (amt * 10 ^ decimals t)\<rfloor> [] TOKEN_PROGRAM_ID]\<rparr>"
proof -
  have "0 \<le> amt * 10 ^ decimals t" using assms(7) by simp
  then have "\<not> \<lfloor>double (amt * 10 ^ decimals t)\<rfloor> < 0"
    using floor_double_nonneg[of "amt * 10 ^ decimals t"] by simp
  then show ?thesis
    using assms(2-6) find_by_mint_registry[OF assms(1)]
    by (simp add: createPaymentTransaction_def add_def Let_def)
qed

lemma createPaymentTransaction_native:
  assumes "getLatestBlockhash e = Some (bh, h)" and "0 \<le> amt"
  shows "createPaymentTransaction e amt (mint SOL) fromWallet toWallet =
     Inr \<lparr>feePayer = fromWallet, blockhash = bh, lastValidBlockHeight = h,
          instructions = [SetComputeUnitLimit 200000,
                          SystemTransfer fromWallet toWallet
                            \<lfloor>double (amt * LAMPORTS_PER_SOL)\<rfloor>]\<rparr>"
proof -
  have "0 \<le> amt * LAMPORTS_PER_SOL" using assms(2) by (simp add: LAMPORTS_PER_SOL_def)
  then have "\<not> \<lfloor>double (amt * LAMPORTS_PER_SOL)\<rfloor> < 0"
    using floor_double_nonneg[of "amt * LAMPORTS_PER_SOL"] by simp
  then show ?thesis
    using assms(1) by (simp add: createPaymentTransaction_def add_def Let_def)
qed

lemma budget_first:
  assumes "createPaymentTransaction e amt tokenMint fromWallet toWallet = Inr tx"
  shows "instructions tx \<noteq> [] \<and> hd (instructions tx) = SetComputeUnitLimit 200000"
  using assms
  by (auto simp add: createPaymentTransaction_def add_def Let_def
           split: option.splits if_splits prod.splits)

text \<open>A negative amount makes the transfer constructor throw.\<close>

lemma negative_amount_throws:
  "createPaymentTransaction env_ok (- 1) (mint SOL) customer shop = Inl EncodingFailure"
  by (simp add: createPaymentTransaction_def add_def Let_def env_values LAMPORTS_PER_SOL_def
        double_values)




text \<open>
  C8. For the native asset and the amount 2.75 the built transaction has exactly two
  operations: the budget reservation, then one transfer from the sender to the receiver of
  \<open>floor(2.75 * LAMPORTS_PER_SOL) = 2750000000\<close> base units. In every transaction that is
  built, the budget reservation is the first operation.
\<close>

theorem native_transfer_operations:
  assumes "getLatestBlockhash e = Some (bh, h)"
  shows "(\<exists>tx. createPaymentTransaction e 2.75 (mint SOL) fromWallet toWallet = Inr tx
           \<and> instructions tx = [SetComputeUnitLimit 200000,
                                 SystemTransfer fromWallet toWallet \<lfloor>2.75 * LAMPORTS_PER_SOL\<rfloor>]
           \<and> length (instructions tx) = 2
           \<and> \<lfloor>2.75 * LAMPORTS_PER_SOL\<rfloor> = 2750000000)
       \<and> (\<forall>e' amt tokenMint fw tw tx'.
             createPaymentTransaction e' amt tokenMint fw tw = Inr tx' \<longrightarrow>
             instructions tx' \<noteq> [] \<and> hd (instructions tx') = SetComputeUnitLimit 200000)"
proof -
  have "(0::real) \<le> 11 / 4" by simp
  note tx = createPaymentTransaction_native[OF assms this]
  show ?thesis
    using budget_first by (simp add: tx LAMPORTS_PER_SOL_def double_values)
qed

text \<open>
  Witness for C8: 2.75 SOL from the customer to the merchant; and the first operation of
  the USDC transaction to the shop in the same environment.
\<close>

theorem native_transfer_operations_witness:
  "getLatestBlockhash env_ok = Some (''blockhash'', 100)
   \<and> (\<exists>tx. createPaymentTransaction env_ok 2.75 (mint SOL) customer (walletAddress merchant) = Inr tx
          \<and> instructions tx = [SetComputeUnitLimit 200000,
                                SystemTransfer customer (walletAddress merchant) 2750000000])
   \<and> \<not> isl (createPaymentTransaction env_ok 10.5 (mint USDC) customer shop)
   \<and> hd (instructions (projr (createPaymentTransaction env_ok 10.5 (mint USDC) customer shop)))
       = SetComputeUnitLimit 200000"
proof -
  note inst = native_transfer_operations[where e = env_ok and fromWallet = customer
                and toWallet = "walletAddress merchant", OF env_values(1)]
  obtain tx where tx: "createPaymentTransaction env_ok 10.5 (mint USDC) customer shop = Inr tx"
    using createPaymentTransaction_token[where t = USDC and e = env_ok
            and fromWallet = customer and toWallet = shop and amt = "10.5",
            OF USDC_in_registry mint_SOL_neq_USDC[symmetric]
            env_values(1) env_values(2) env_values(3) env_values(4)]
    by simp
  from inst tx have "hd (instructions tx) = SetComputeUnitLimit 200000"
    by blast
  with inst tx show ?thesis
    by (auto simp add: env_values)
qed

text \<open>
  C9 (as amended). For a registry token with 6 decimals, the amount 0.0000001 yields a
  transfer of exactly 0 base units. In general, for an amount in the range of \<open>js_amount\<close>,
  the transferred number of base units is the floor of the product \<open>amount * 10^6\<close> after
  that product has been rounded to a double: it is less than one base unit and one
  rounding error below the exact product and at most one rounding error above it. So a
  remainder below one base unit is dropped in most cases, but a product that is within a
  rounding error of the next integer is transferred as that integer.
\<close>

theorem sub_unit_amount_floors_to_zero:
  assumes "t \<in> set (Object_values TOKENS)" and "decimals t = 6"
    and "getLatestBlockhash e = Some (bh, h)" and "validKey e (mint t)"
    and "getAssociatedTokenAddress e (mint t) fromWallet = Some fromTokenAccount"
    and "getAssociatedTokenAddress e (mint t) toWallet = Some toTokenAccount"
  shows "(\<exists>tx. createPaymentTransaction e (double 0.0000001) (mint t) fromWallet toWallet = Inr tx
           \<and> last (instructions tx) =
               TokenTransfer fromTokenAccount toTokenAccount fromWallet 0 [] TOKEN_PROGRAM_ID)
       \<and> (\<forall>amt. js_amount amt \<longrightarrow>
            (\<exists>tx n. createPaymentTransaction e amt (mint t) fromWallet toWallet = Inr tx
               \<and> last (instructions tx) =
                   TokenTransfer fromTokenAccount toTokenAccount fromWallet n [] TOKEN_PROGRAM_ID
               \<and> n = \<lfloor>double (amt * 10 ^ 6)\<rfloor>
               \<and> of_int n \<le> amt * 10 ^ 6 * (1 + 1 / 2 ^ 53)
               \<and> amt * 10 ^ 6 * (1 - 1 / 2 ^ 53) - 1 < of_int n))"
proof -
  have not_native: "mint t \<noteq> mint SOL"
    using registry_cases[OF assms(1)] assms(2) by (auto simp add: decimals_values mint_values)
  note tx = createPaymentTransaction_token[OF assms(1) not_native assms(3-)]
  define a :: real where "a = double 0.0000001"
  have small: "0 \<le> a" "\<lfloor>double (a * 10 ^ 6)\<rfloor> = 0"
    by (simp_all add: a_def double_values)
  have "\<exists>tx. createPaymentTransaction e a (mint t) fromWallet toWallet = Inr tx
           \<and> last (instructions tx) =
               TokenTransfer fromTokenAccount toTokenAccount fromWallet 0 [] TOKEN_PROGRAM_ID"
    using small(2) by (simp add: tx[OF small(1)] assms(2))
  then have first: "\<exists>tx. createPaymentTransaction e (double 0.0000001) (mint t) fromWallet toWallet = Inr tx
           \<and> last (instructions tx) =
               TokenTransfer fromTokenAccount toTokenAccount fromWallet 0 [] TOKEN_PROGRAM_ID"
    unfolding a_def .
  have general: "\<exists>tx n. createPaymentTransaction e amt (mint t) fromWallet toWallet = Inr tx
               \<and> last (instructions tx) =
                   TokenTransfer fromTokenAccount toTokenAccount fromWallet n [] TOKEN_PROGRAM_ID
               \<and> n = \<lfloor>double (amt * 10 ^ 6)\<rfloor>
               \<and> of_int n \<le> amt * 10 ^ 6 * (1 + 1 / 2 ^ 53)
               \<and> amt * 10 ^ 6 * (1 - 1 / 2 ^ 53) - 1 < of_int n" if "js_amount amt" for amt
  proof -
    have a: "0 \<le> amt" using that by (rule js_amount_nonneg)
    then have x: "0 \<le> amt * 10 ^ 6" by simp
    from floor_double_bounds[OF x] show ?thesis
      by (simp add: tx[OF a] assms(2))
  qed
  from first general show ?thesis by blast
qed

text \<open>Witness for C9: 0.0000001 USDC, and 10.5 USDC, from the customer to the shop.\<close>

theorem sub_unit_amount_floors_to_zero_witness:
  "USDC \<in> set (Object_values TOKENS) \<and> decimals USDC = 6
   \<and> getLatestBlockhash env_ok = Some (''blockhash'', 100)
   \<and> validKey env_ok (mint USDC)
   \<and> getAssociatedTokenAddress env_ok (mint USDC) customer = Some (mint USDC @ ''/'' @ customer)
   \<and> getAssociatedTokenAddress env_ok (mint USDC) shop = Some (mint USDC @ ''/'' @ shop)
   \<and> (\<exists>tx. createPaymentTransaction env_ok (double 0.0000001) (mint USDC) customer shop = Inr tx
          \<and> last (instructions tx) =
              TokenTransfer (mint USDC @ ''/'' @ customer) (mint USDC @ ''/'' @ shop) customer 0 []
                TOKEN_PROGRAM_ID)
   \<and> js_amount 10.5
   \<and> (\<exists>tx. createPaymentTransaction env_ok 10.5 (mint USDC) customer shop = Inr tx
          \<and> last (instructions tx) =
              TokenTransfer (mint USDC @ ''/'' @ customer) (mint USDC @ ''/'' @ shop) customer
                10500000 [] TOKEN_PROGRAM_ID)"
proof -
  have amt: "js_amount 10.5" by (simp add: js_amount_def double_values)
  note inst = sub_unit_amount_floors_to_zero[where t = USDC and e = env_ok
                and fromWallet = customer and toWallet = shop,
                OF USDC_in_registry decimals_values(2)
                env_values(1) env_values(2) env_values(3) env_values(4)]
  from inst have first:
    "\<exists>tx. createPaymentTransaction env_ok (double 0.0000001) (mint USDC) customer shop = Inr tx
          \<and> last (instructions tx) =
              TokenTransfer (mint USDC @ ''/'' @ customer) (mint USDC @ ''/'' @ shop) customer 0 []
                TOKEN_PROGRAM_ID"
    by blast
  from inst amt have
    "\<exists>tx n. createPaymentTransaction env_ok 10.5 (mint USDC) customer shop = Inr tx
          \<and> last (instructions tx) =
              TokenTransfer (mint USDC @ ''/'' @ customer) (mint USDC @ ''/'' @ shop) customer n []
                TOKEN_PROGRAM_ID
          \<and> n = \<lfloor>double (10.5 * 10 ^ 6)\<rfloor>"
    by blast
  then have second:
    "\<exists>tx. createPaymentTransaction env_ok 10.5 (mint USDC) customer shop = Inr tx
          \<and> last (instructions tx) =
              TokenTransfer (mint USDC @ ''/'' @ customer) (mint USDC @ ''/'' @ shop) customer
                10500000 [] TOKEN_PROGRAM_ID"
    by (simp add: double_values)
  from first second amt show ?thesis
    by (simp add: USDC_in_registry decimals_values env_values)
qed

text \<open>
  Counterexample to C9 as stated. The double nearest to 0.009 is an amount of less than
  9000 base units of USDC (the floor of the exact product is 8999), and the transaction
  transfers 9000: the amount is not floored. And for the amount 8.2, that is the double
  nearest to it, the transaction transfers 8199999 base units, one less than
  \<open>8.2 * 10^6\<close>, which has no fractional remainder.
\<close>

theorem rounded_product_exceeds_amount:
  "js_amount (double 0.009)
   \<and> double 0.009 * 10 ^ decimals USDC < 9000
   \<and> \<lfloor>double 0.009 * 10 ^ decimals USDC\<rfloor> = 8999
   \<and> \<not> isl (createPaymentTransaction env_has_account (double 0.009) (mint USDC) customer shop)
   \<and> last (instructions (projr (createPaymentTransaction env_has_account (double 0.009)
                                   (mint USDC) customer shop)))
       = TokenTransfer (mint USDC @ ''/'' @ customer) (mint USDC @ ''/'' @ shop) customer
           9000 [] TOKEN_PROGRAM_ID
   \<and> \<lfloor>8.2 * 10 ^ decimals USDC :: real\<rfloor> = 8200000
   \<and> last (instructions (projr (createPaymentTransaction env_has_account (double 8.2)
                                   (mint USDC) customer shop)))
       = TokenTransfer (mint USDC @ ''/'' @ customer) (mint USDC @ ''/'' @ shop) customer
           8199999 [] TOKEN_PROGRAM_ID"
  by (simp add: createPaymentTransaction_token[OF USDC_in_registry mint_SOL_neq_USDC[symmetric]
          env_has_account_values(1) env_has_account_values(2) env_has_account_values(3)
          env_has_account_values(4)]
        getAccount_values decimals_values double_values js_amount_def)

subsection \<open>Payment records\<close>

lemma shop_props_values:
  "merchantAddress shop_props = shop"
  "preferredToken shop_props = mint USDC"
  by (simp_all add: shop_props_def)

lemma ready_form_values:
  "form_amount ready_form = 1"
  "selectedToken ready_form = mint SOL"
  "tokenBalance ready_form = Some 5"
  "quote ready_form \<noteq> None"
  by (simp_all add: ready_form_def fetchQuote_def initial_form_def form_props_values
        mint_SOL_neq_USDC getQuote_def Let_def mint_values)

lemma ready_form_tokens:
  "selectedTokenInfo ready_form = SOL"
  "preferredTokenInfo form_props = USDC"
  "preferredTokenInfo shop_props = USDC"
  by (simp_all add: selectedTokenInfo_def preferredTokenInfo_def ready_form_values
        form_props_values shop_props_values find_by_mint_values)

lemma toString_digit: "toString 7 = ''7''"
  by (simp add: toString.simps)

lemma flow_ok: "payment_flow env_ok shop_props customer ready_form = Inr payment_A"
  by (simp add: payment_flow_def Let_def ready_form_values ready_form_tokens shop_props_values
        mint_SOL_neq_USDC swap_output env_values mockSendTransaction_def toString_digit
        createPaymentTransaction_token[OF USDC_in_registry mint_SOL_neq_USDC[symmetric]
           env_values(1) env_values(2) env_values(3) env_values(4)] payment_A_def)

lemma flow_rpc_down: "payment_flow env_rpc_down form_props customer ready_form = Inl RpcFailure"
  by (simp add: payment_flow_def Let_def ready_form_values ready_form_tokens form_props_values
        mint_SOL_neq_USDC swap_output env_rpc_down_values createPaymentTransaction_def)

text \<open>What \<open>handleSubmit\<close> does with \<open>ready_form\<close> and a connected wallet: the guards pass.\<close>

lemma handleSubmit_ready:
  "handleSubmit e p (Some customer) ready_form =
     (case payment_flow e p customer ready_form of
        Inr payment \<Rightarrow>
          (ready_form\<lparr>isProcessing := False, error := None, success := True,
                      paymentStatus := Completed_s\<rparr>, Some payment)
      | Inl x \<Rightarrow>
          (ready_form\<lparr>isProcessing := False, error := Some PaymentFailed, success := False,
                      paymentStatus := Failed_s\<rparr>, None))"
  using ready_form_values(4)
  by (cases "quote ready_form") (simp_all add: handleSubmit_def ready_form_values)

lemma payment_flow_record:
  "payment_flow e p k f = Inr payment \<Longrightarrow>
     status payment = Completed \<and> token payment = preferredToken p
     \<and> merchantId payment = merchantAddress p \<and> customerWallet payment = Some k"
  by (auto simp add: payment_flow_def Let_def split: sum.splits if_splits)

text \<open>
  With the props that \<open>App\<close> passes, every flow derives the holding account of the
  merchant's wallet for USDC. That wallet is not a point of the curve, so the derivation
  throws: whatever the customer selects, the flow fails and nothing is recorded.
\<close>

lemma shipped_flow_fails:
  assumes "getAssociatedTokenAddress e (mint USDC) (walletAddress merchant) = None"
  shows "isl (payment_flow e form_props k f)"
    and "snd (handleSubmit e form_props pk f) = None"
proof -
  have tx: "isl (createPaymentTransaction e amt (mint USDC) k (walletAddress merchant))"
    for amt k
    using assms mint_SOL_neq_USDC
    by (auto simp add: createPaymentTransaction_def Let_def split: option.splits prod.splits)
  show flow: "isl (payment_flow e form_props k f)" for k
    by (simp add: payment_flow_def Let_def form_props_values executeSwap_def
          sum.case_eq_if tx)
  show "snd (handleSubmit e form_props pk f) = None"
    by (simp add: handleSubmit_def sum.case_eq_if flow split: option.splits)
qed


text \<open>
  C2 (as amended). A Payment record is created exactly when a wallet is connected, a
  quote is present, the amount does not exceed the known balance and the payment flow
  runs to its end without an error; that record has the status completed and the
  merchant's token, and the form moves to the completed state. When a guard rejects the
  submission no record is created and the form's state is not moved; when a step of the
  flow throws, the form moves to the failed state and no record is created. The handler
  builds the new list from the list of its render and the new record, and modifies none of
  the records of that list.
\<close>

theorem payment_record_only_on_success:
  "(snd (handleSubmit e p pk f) = Some payment \<longleftrightarrow>
      (\<exists>k. pk = Some k \<and> quote f \<noteq> None
          \<and> (\<forall>b. tokenBalance f = Some b \<longrightarrow> form_amount f \<le> b)
          \<and> payment_flow e p k f = Inr payment))
   \<and> (snd (handleSubmit e p pk f) = Some payment \<longrightarrow>
       status payment = Completed
     \<and> token payment = preferredToken p
     \<and> paymentStatus (fst (handleSubmit e p pk f)) = Completed_s
     \<and> success (fst (handleSubmit e p pk f)))
   \<and> (pk = None \<or> quote f = None \<or> (\<exists>b. tokenBalance f = Some b \<and> b < form_amount f) \<longrightarrow>
       snd (handleSubmit e p pk f) = None
     \<and> paymentStatus (fst (handleSubmit e p pk f)) = paymentStatus f
     \<and> success (fst (handleSubmit e p pk f)) = success f
     \<and> error (fst (handleSubmit e p pk f)) \<noteq> None)
   \<and> (paymentStatus (fst (handleSubmit e p pk f)) = Failed_s \<longrightarrow>
       snd (handleSubmit e p pk f) = None)
   \<and> (pk = Some k \<and> quote f \<noteq> None \<and> (\<forall>b. tokenBalance f = Some b \<longrightarrow> form_amount f \<le> b) \<longrightarrow>
        (\<forall>pay. payment_flow e p k f = Inr pay \<longrightarrow>
           snd (handleSubmit e p pk f) = Some pay)
      \<and> (isl (payment_flow e p k f) \<longrightarrow>
           snd (handleSubmit e p pk f) = None
         \<and> paymentStatus (fst (handleSubmit e p pk f)) = Failed_s))
   \<and> payments (handlePaymentComplete rendered payment s) = payments rendered @ [payment]
   \<and> (\<forall>i < length (payments rendered).
        payments (handlePaymentComplete rendered payment s) ! i = payments rendered ! i)"
  using payment_flow_record[of e p _ f payment]
  by (auto simp add: handleSubmit_def handlePaymentComplete_def nth_append
        split: option.splits sum.splits if_splits)

text \<open>
  Witness for C2: the submission of \<open>ready_form\<close> to the shop in the environment where
  every call succeeds; to the merchant in the one where the RPC node does not answer; and
  the submission of the same form with a balance of one half, which the balance guard
  rejects.
\<close>

theorem payment_record_only_on_success_witness:
  "quote ready_form \<noteq> None \<and> tokenBalance ready_form = Some 5 \<and> form_amount ready_form \<le> 5
   \<and> payment_flow env_ok shop_props customer ready_form = Inr payment_A
   \<and> snd (handleSubmit env_ok shop_props (Some customer) ready_form) = Some payment_A
   \<and> status payment_A = Completed
   \<and> paymentStatus (fst (handleSubmit env_ok shop_props (Some customer) ready_form)) = Completed_s
   \<and> isl (payment_flow env_rpc_down form_props customer ready_form)
   \<and> snd (handleSubmit env_rpc_down form_props (Some customer) ready_form) = None
   \<and> paymentStatus (fst (handleSubmit env_rpc_down form_props (Some customer) ready_form))
       = Failed_s
   \<and> tokenBalance (ready_form\<lparr>tokenBalance := Some 0.5\<rparr>) = Some 0.5
   \<and> 0.5 < form_amount (ready_form\<lparr>tokenBalance := Some 0.5\<rparr>)
   \<and> snd (handleSubmit env_ok shop_props (Some customer) (ready_form\<lparr>tokenBalance := Some 0.5\<rparr>))
       = None
   \<and> payments (handlePaymentComplete loaded_App payment_A loaded_App)
       = payments loaded_App @ [payment_A]"
proof -
  note ok = payment_record_only_on_success[of env_ok shop_props "Some customer" ready_form
              payment_A customer loaded_App loaded_App]
  note down = payment_record_only_on_success[of env_rpc_down form_props "Some customer"
                ready_form payment_A customer loaded_App loaded_App]
  note poor = payment_record_only_on_success[of env_ok shop_props "Some customer"
                "ready_form\<lparr>tokenBalance := Some 0.5\<rparr>" payment_A customer
                loaded_App loaded_App]
  have guard: "\<exists>b. tokenBalance (ready_form\<lparr>tokenBalance := Some 0.5\<rparr>) = Some b
                 \<and> b < form_amount (ready_form\<lparr>tokenBalance := Some 0.5\<rparr>)"
    by (rule exI[of _ "0.5"]) (simp add: ready_form_values)
  from poor guard
  have rejected: "snd (handleSubmit env_ok shop_props (Some customer)
                         (ready_form\<lparr>tokenBalance := Some 0.5\<rparr>)) = None"
    by blast
  from ok flow_ok ready_form_values
  have emitted: "snd (handleSubmit env_ok shop_props (Some customer) ready_form) = Some payment_A
     \<and> status payment_A = Completed
     \<and> paymentStatus (fst (handleSubmit env_ok shop_props (Some customer) ready_form))
         = Completed_s
     \<and> payments (handlePaymentComplete loaded_App payment_A loaded_App)
         = payments loaded_App @ [payment_A]"
    by simp
  from down flow_rpc_down ready_form_values
  have failed: "snd (handleSubmit env_rpc_down form_props (Some customer) ready_form) = None
     \<and> paymentStatus (fst (handleSubmit env_rpc_down form_props (Some customer) ready_form))
         = Failed_s"
    by simp
  from rejected emitted failed show ?thesis
    by (simp add: flow_ok flow_rpc_down ready_form_values)
qed

text \<open>
  Counterexample to C2 as stated: with the RPC node down the payment flow ends in the
  failed state, and no Payment record is created; the payment list is as before.
\<close>

theorem failed_flow_creates_no_record:
  "quote ready_form \<noteq> None
   \<and> payment_flow env_rpc_down form_props customer ready_form = Inl RpcFailure
   \<and> paymentStatus (fst (handleSubmit env_rpc_down form_props (Some customer) ready_form))
       = Failed_s
   \<and> snd (handleSubmit env_rpc_down form_props (Some customer) ready_form) = None
   \<and> payments (submit_payment env_rpc_down (Some customer) ready_form loaded_App loaded_App)
       = payments loaded_App"
  by (simp add: ready_form_values flow_rpc_down handleSubmit_ready submit_payment_def)




end
